theory Spec2Isabelle
  imports Main "HOL-Library.Multiset"
begin

section \<open>The schema of the migration\<close>

text \<open>
  The storage layer is declared in one SQL migration: five tables, one enum, row-level
  security policies, one predicate function and two trigger functions. A table is a list of
  rows, a row is a record with one field per column. A column declared \<open>NOT NULL\<close> (or
  \<open>PRIMARY KEY\<close>) has the plain type, a nullable column an \<open>option\<close> type with \<open>None\<close>
  for SQL \<open>NULL\<close>. The columns \<open>id\<close> and \<open>created_at\<close> appear in every table and
  \<open>updated_at\<close> in four of them, so they are declared once and extended (the field \<open>id\<close>
  is called \<open>row_id\<close>, since \<open>id\<close> is the identity function of HOL; the other columns
  whose names are used by two tables carry the initial of their table).
\<close>

type_synonym uuid = nat
type_synonym timestamptz = int

text \<open>\<^verbatim>\<open>CREATE TYPE public.app_role AS ENUM ('admin', 'user')\<close>\<close>

datatype app_role = admin | user

record pg_row =
  row_id :: uuid
  created_at :: "timestamptz option"

record stamped_row = pg_row +
  updated_at :: "timestamptz option"

record profiles_row = stamped_row +
  p_email :: string
  p_full_name :: "string option"
  avatar_url :: "string option"

record user_roles_row = pg_row +
  user_id :: uuid
  role :: app_role

record content_row = stamped_row +
  created_by :: "uuid option"

record news_row = content_row +
  n_title :: string
  n_content :: string
  n_image_url :: "string option"
  published_date :: "timestamptz option"

record staff_row = content_row +
  s_full_name :: string
  s_position :: string
  department :: "string option"
  s_email :: "string option"
  phone :: "string option"
  s_image_url :: "string option"
  bio :: "string option"

record activities_row = content_row +
  a_title :: string
  description :: string
  activity_date :: timestamptz
  location :: "string option"
  a_image_url :: "string option"

text \<open>
  \<open>auth.users\<close> belongs to the authentication service; the migration reads three of its
  columns in \<open>handle_new_user\<close>. The metadata is a JSON object: a key is absent, or bound
  to JSON \<open>null\<close> (\<open>None\<close>), or bound to a value (its text).
\<close>

record auth_user =
  au_id :: uuid
  au_email :: "string option"
  raw_user_meta_data :: "(string \<times> string option) list"

record db =
  auth_users :: "auth_user list"
  profiles :: "profiles_row list"
  user_roles :: "user_roles_row list"
  news :: "news_row list"
  staff :: "staff_row list"
  activities :: "activities_row list"

section \<open>Callers and the role predicate\<close>

text \<open>
  A request reaches the database either without a session (database role \<open>anon\<close>,
  \<open>auth.uid()\<close> is \<open>NULL\<close>) or with the session of a signed-in identity (database role
  \<open>authenticated\<close>, \<open>auth.uid()\<close> is the identity's id).
\<close>

datatype caller = Anon | Authenticated uuid

fun auth_uid :: "caller \<Rightarrow> uuid option" where
  "auth_uid Anon = None"
| "auth_uid (Authenticated u) = Some u"

fun is_authenticated :: "caller \<Rightarrow> bool" where
  "is_authenticated Anon = False"
| "is_authenticated (Authenticated u) = True"

text \<open>
  \<^verbatim>\<open>SELECT EXISTS (SELECT 1 FROM public.user_roles WHERE user_id = _user_id AND role = _role)\<close>

  The first argument may be \<open>NULL\<close> (it is \<open>auth.uid()\<close> in every policy); then the comparison
  \<open>user_id = _user_id\<close> is not true for any row.
\<close>

definition has_role :: "db \<Rightarrow> uuid option \<Rightarrow> app_role \<Rightarrow> bool" where
  "has_role d uid_arg role_arg =
     list_ex (\<lambda>r. Some (user_id r) = uid_arg \<and> role r = role_arg) (user_roles d)"

section \<open>Row-level security\<close>

datatype pg_table = Profiles | User_roles | News | Staff | Activities

datatype command = SELECT | INSERT | UPDATE | DELETE

datatype policy_for = FOR_ALL | FOR command

datatype policy_to = TO_PUBLIC | TO_AUTHENTICATED

text \<open>The three expressions that the policies of the five tables use.\<close>

datatype policy_expr =
    TRUE
  | AUTH_UID_EQ_ID
  | HAS_ROLE_AUTH_UID app_role

record policy =
  pol_name :: string
  pol_on :: pg_table
  pol_for :: policy_for
  pol_to :: policy_to
  pol_using :: "policy_expr option"
  pol_with_check :: "policy_expr option"

text \<open>
  The eleven \<open>CREATE POLICY\<close> statements on the five tables, in the order of the migration.
  (The policies on \<open>storage.objects\<close> guard the image buckets and are not part of this
  development.)
\<close>

definition policies :: "policy list" where
  "policies =
    [\<lparr>pol_name = ''Public profiles are viewable by everyone'', pol_on = Profiles,
      pol_for = FOR SELECT, pol_to = TO_PUBLIC, pol_using = Some TRUE, pol_with_check = None\<rparr>,
     \<lparr>pol_name = ''Users can update own profile'', pol_on = Profiles,
      pol_for = FOR UPDATE, pol_to = TO_PUBLIC, pol_using = Some AUTH_UID_EQ_ID,
      pol_with_check = None\<rparr>,
     \<lparr>pol_name = ''Users can insert own profile'', pol_on = Profiles,
      pol_for = FOR INSERT, pol_to = TO_PUBLIC, pol_using = None,
      pol_with_check = Some AUTH_UID_EQ_ID\<rparr>,
     \<lparr>pol_name = ''User roles viewable by authenticated users'', pol_on = User_roles,
      pol_for = FOR SELECT, pol_to = TO_AUTHENTICATED, pol_using = Some TRUE,
      pol_with_check = None\<rparr>,
     \<lparr>pol_name = ''Only admins can manage user roles'', pol_on = User_roles,
      pol_for = FOR_ALL, pol_to = TO_PUBLIC, pol_using = Some (HAS_ROLE_AUTH_UID admin),
      pol_with_check = None\<rparr>,
     \<lparr>pol_name = ''News viewable by everyone'', pol_on = News,
      pol_for = FOR SELECT, pol_to = TO_PUBLIC, pol_using = Some TRUE, pol_with_check = None\<rparr>,
     \<lparr>pol_name = ''Admins can manage news'', pol_on = News,
      pol_for = FOR_ALL, pol_to = TO_PUBLIC, pol_using = Some (HAS_ROLE_AUTH_UID admin),
      pol_with_check = None\<rparr>,
     \<lparr>pol_name = ''Staff viewable by everyone'', pol_on = Staff,
      pol_for = FOR SELECT, pol_to = TO_PUBLIC, pol_using = Some TRUE, pol_with_check = None\<rparr>,
     \<lparr>pol_name = ''Admins can manage staff'', pol_on = Staff,
      pol_for = FOR_ALL, pol_to = TO_PUBLIC, pol_using = Some (HAS_ROLE_AUTH_UID admin),
      pol_with_check = None\<rparr>,
     \<lparr>pol_name = ''Activities viewable by everyone'', pol_on = Activities,
      pol_for = FOR SELECT, pol_to = TO_PUBLIC, pol_using = Some TRUE, pol_with_check = None\<rparr>,
     \<lparr>pol_name = ''Admins can manage activities'', pol_on = Activities,
      pol_for = FOR_ALL, pol_to = TO_PUBLIC, pol_using = Some (HAS_ROLE_AUTH_UID admin),
      pol_with_check = None\<rparr>]"

text \<open>
  An expression is evaluated for a caller against the id of a row (no policy reads another
  column). \<open>auth.uid() = id\<close> is not true when \<open>auth.uid()\<close> is \<open>NULL\<close>.
\<close>

fun eval_expr :: "db \<Rightarrow> caller \<Rightarrow> uuid \<Rightarrow> policy_expr \<Rightarrow> bool" where
  "eval_expr d c k TRUE = True"
| "eval_expr d c k AUTH_UID_EQ_ID = (auth_uid c = Some k)"
| "eval_expr d c k (HAS_ROLE_AUTH_UID r) = has_role d (auth_uid c) r"

text \<open>
  Row-level security is enabled on all five tables, and every policy is permissive. The
  database applies to a command the policies declared for the table, for that command or for
  \<open>ALL\<close>, and for a role of the caller; a row passes when the expression of one of them is
  true, and with no such policy every row is refused. A policy without \<open>WITH CHECK\<close> checks
  new rows with its \<open>USING\<close> expression.
\<close>

definition applies :: "caller \<Rightarrow> pg_table \<Rightarrow> command \<Rightarrow> policy \<Rightarrow> bool" where
  "applies c t cmd p =
     (pol_on p = t \<and> (pol_for p = FOR_ALL \<or> pol_for p = FOR cmd) \<and>
      (pol_to p = TO_PUBLIC \<or> is_authenticated c))"

definition check_expr :: "policy \<Rightarrow> policy_expr option" where
  "check_expr p = (case pol_with_check p of Some e \<Rightarrow> Some e | None \<Rightarrow> pol_using p)"

definition passes :: "db \<Rightarrow> caller \<Rightarrow> uuid \<Rightarrow> policy_expr option \<Rightarrow> bool" where
  "passes d c k e = (case e of None \<Rightarrow> False | Some x \<Rightarrow> eval_expr d c k x)"

definition rls_using :: "db \<Rightarrow> caller \<Rightarrow> pg_table \<Rightarrow> command \<Rightarrow> uuid \<Rightarrow> bool" where
  "rls_using d c t cmd k =
     list_ex (\<lambda>p. applies c t cmd p \<and> passes d c k (pol_using p)) policies"

definition rls_with_check :: "db \<Rightarrow> caller \<Rightarrow> pg_table \<Rightarrow> command \<Rightarrow> uuid \<Rightarrow> bool" where
  "rls_with_check d c t cmd k =
     list_ex (\<lambda>p. applies c t cmd p \<and> passes d c k (check_expr p)) policies"

section \<open>Constraints\<close>

datatype error =
    Insufficient_privilege
  | Not_null_violation
  | Unique_violation
  | Foreign_key_violation
  | Invalid_datetime_format

text \<open>
  \<open>Insufficient_privilege\<close> is the error of a new row that violates the row-level security
  policy of its table. The key constraints: \<open>id\<close> is the primary key of each table, and
  \<open>user_roles\<close> has \<open>UNIQUE(user_id, role)\<close>.
\<close>

definition primary_keys_ok :: "db \<Rightarrow> bool" where
  "primary_keys_ok d =
     (distinct (map au_id (auth_users d)) \<and> distinct (map row_id (profiles d)) \<and>
      distinct (map row_id (user_roles d)) \<and> distinct (map row_id (news d)) \<and>
      distinct (map row_id (staff d)) \<and> distinct (map row_id (activities d)))"

definition user_roles_unique_ok :: "db \<Rightarrow> bool" where
  "user_roles_unique_ok d = distinct (map (\<lambda>r. (user_id r, role r)) (user_roles d))"

text \<open>
  The references: \<open>profiles.id\<close> to \<open>auth.users(id)\<close>, \<open>user_roles.user_id\<close> to
  \<open>profiles(id)\<close>, and the nullable \<open>created_by\<close> of the three content tables to
  \<open>profiles(id)\<close>.
\<close>

definition is_profile :: "db \<Rightarrow> uuid \<Rightarrow> bool" where
  "is_profile d k = (k \<in> set (map row_id (profiles d)))"

definition creator_ok :: "db \<Rightarrow> 'a content_row_scheme \<Rightarrow> bool" where
  "creator_ok d r = (case created_by r of None \<Rightarrow> True | Some k \<Rightarrow> is_profile d k)"

definition references_ok :: "db \<Rightarrow> bool" where
  "references_ok d =
     (list_all (\<lambda>p. row_id p \<in> set (map au_id (auth_users d))) (profiles d) \<and>
      list_all (\<lambda>r. is_profile d (user_id r)) (user_roles d) \<and>
      list_all (creator_ok d) (news d) \<and>
      list_all (creator_ok d) (staff d) \<and>
      list_all (creator_ok d) (activities d))"

text \<open>
  A statement that leaves a constraint violated raises the error and changes nothing: the
  caller gets the error instead of a new state.
\<close>

definition commit :: "db \<Rightarrow> error + db" where
  "commit d =
     (if \<not> (primary_keys_ok d \<and> user_roles_unique_ok d) then Inl Unique_violation
      else if \<not> references_ok d then Inl Foreign_key_violation
      else Inr d)"

section \<open>Statements under row-level security\<close>

text \<open>
  \<open>INSERT\<close>: the new row (with the defaults of the columns that the statement does not
  give) is checked against the \<open>WITH CHECK\<close> expressions; a row that fails raises an error.
\<close>

definition insert_stmt ::
  "db \<Rightarrow> caller \<Rightarrow> pg_table \<Rightarrow> 'a pg_row_scheme \<Rightarrow> 'a pg_row_scheme list
     \<Rightarrow> error + 'a pg_row_scheme list" where
  "insert_stmt d c t NEW rows =
     (if rls_with_check d c t INSERT (row_id NEW) then Inr (rows @ [NEW])
      else Inl Insufficient_privilege)"

text \<open>
  \<open>UPDATE ... WHERE id = k\<close> and \<open>DELETE ... WHERE id = k\<close> see the rows that pass the
  \<open>USING\<close> expressions of the command and, since the statement reads the row, of
  \<open>SELECT\<close>. A row that fails is not visible to the statement: it is skipped, and no error is
  raised. The new version of an updated row is checked as an inserted row is, and has to
  stay readable.
\<close>

definition targeted ::
  "db \<Rightarrow> caller \<Rightarrow> pg_table \<Rightarrow> command \<Rightarrow> uuid \<Rightarrow> 'a pg_row_scheme \<Rightarrow> bool" where
  "targeted d c t cmd k r =
     (row_id r = k \<and> rls_using d c t SELECT (row_id r) \<and> rls_using d c t cmd (row_id r))"

definition new_row_ok :: "db \<Rightarrow> caller \<Rightarrow> pg_table \<Rightarrow> 'a pg_row_scheme \<Rightarrow> bool" where
  "new_row_ok d c t NEW =
     (rls_with_check d c t UPDATE (row_id NEW) \<and> rls_using d c t SELECT (row_id NEW))"

definition update_stmt ::
  "db \<Rightarrow> caller \<Rightarrow> pg_table \<Rightarrow> uuid \<Rightarrow> ('a pg_row_scheme \<Rightarrow> 'a pg_row_scheme)
     \<Rightarrow> 'a pg_row_scheme list \<Rightarrow> error + 'a pg_row_scheme list" where
  "update_stmt d c t k f rows =
     (if list_ex (\<lambda>r. targeted d c t UPDATE k r \<and> \<not> new_row_ok d c t (f r)) rows
      then Inl Insufficient_privilege
      else Inr (map (\<lambda>r. if targeted d c t UPDATE k r then f r else r) rows))"

definition delete_stmt ::
  "db \<Rightarrow> caller \<Rightarrow> pg_table \<Rightarrow> uuid \<Rightarrow> 'a pg_row_scheme list \<Rightarrow> 'a pg_row_scheme list" where
  "delete_stmt d c t k rows = filter (\<lambda>r. \<not> targeted d c t DELETE k r) rows"

section \<open>Triggers\<close>

text \<open>
  \<^verbatim>\<open>NEW.updated_at = NOW(); RETURN NEW;\<close>

  One function, run \<open>BEFORE UPDATE ... FOR EACH ROW\<close> on profiles, news, staff and
  activities: the row that is stored is the row the trigger returns. \<open>now\<close> is the value of
  \<open>NOW()\<close> in the transaction of the statement.
\<close>

definition handle_updated_at ::
  "timestamptz \<Rightarrow> 'a stamped_row_scheme \<Rightarrow> 'a stamped_row_scheme" where
  "handle_updated_at now NEW = NEW\<lparr>updated_at := Some now\<rparr>"

text \<open>
  \<^verbatim>\<open>INSERT INTO public.profiles (id, email, full_name)
  VALUES (NEW.id, NEW.email, COALESCE(NEW.raw_user_meta_data->>'full_name', ''))\<close>

  The function is \<open>SECURITY DEFINER\<close>: its insert is not subject to the policies of the
  caller. \<open>avatar_url\<close> has no default, the two timestamps default to \<open>NOW()\<close>, and
  \<open>profiles.email\<close> is \<open>NOT NULL\<close>.
\<close>

definition meta_full_name :: "(string \<times> string option) list \<Rightarrow> string" where
  "meta_full_name meta =
     (case map_of meta ''full_name'' of Some (Some v) \<Rightarrow> v | _ \<Rightarrow> '''')"

definition new_profile :: "timestamptz \<Rightarrow> auth_user \<Rightarrow> string \<Rightarrow> profiles_row" where
  "new_profile now NEW e =
     \<lparr>row_id = au_id NEW, created_at = Some now, updated_at = Some now, p_email = e,
      p_full_name = Some (meta_full_name (raw_user_meta_data NEW)), avatar_url = None\<rparr>"

definition handle_new_user :: "timestamptz \<Rightarrow> auth_user \<Rightarrow> db \<Rightarrow> error + db" where
  "handle_new_user now NEW d =
     (case au_email NEW of
        None \<Rightarrow> Inl Not_null_violation
      | Some e \<Rightarrow> Inr (d\<lparr>profiles := profiles d @ [new_profile now NEW e]\<rparr>))"

text \<open>
  Registration inserts the identity into \<open>auth.users\<close>; \<open>on_auth_user_created\<close> runs
  \<open>handle_new_user\<close> \<open>AFTER INSERT ... FOR EACH ROW\<close>, in the transaction of that insert.
\<close>

definition register :: "timestamptz \<Rightarrow> auth_user \<Rightarrow> db \<Rightarrow> error + db" where
  "register now NEW d =
     (case handle_new_user now NEW (d\<lparr>auth_users := auth_users d @ [NEW]\<rparr>) of
        Inl e \<Rightarrow> Inl e
      | Inr d' \<Rightarrow> commit d')"

section \<open>The statements on each table\<close>

definition insert_news :: "db \<Rightarrow> caller \<Rightarrow> news_row \<Rightarrow> error + db" where
  "insert_news d c NEW =
     (case insert_stmt d c News NEW (news d) of
        Inl e \<Rightarrow> Inl e | Inr rows \<Rightarrow> commit (d\<lparr>news := rows\<rparr>))"

definition update_news ::
  "db \<Rightarrow> caller \<Rightarrow> timestamptz \<Rightarrow> uuid \<Rightarrow> (news_row \<Rightarrow> news_row) \<Rightarrow> error + db" where
  "update_news d c now k set_clause =
     (case update_stmt d c News k (\<lambda>r. handle_updated_at now (set_clause r)) (news d) of
        Inl e \<Rightarrow> Inl e | Inr rows \<Rightarrow> commit (d\<lparr>news := rows\<rparr>))"

definition delete_news :: "db \<Rightarrow> caller \<Rightarrow> uuid \<Rightarrow> error + db" where
  "delete_news d c k = commit (d\<lparr>news := delete_stmt d c News k (news d)\<rparr>)"

definition insert_staff :: "db \<Rightarrow> caller \<Rightarrow> staff_row \<Rightarrow> error + db" where
  "insert_staff d c NEW =
     (case insert_stmt d c Staff NEW (staff d) of
        Inl e \<Rightarrow> Inl e | Inr rows \<Rightarrow> commit (d\<lparr>staff := rows\<rparr>))"

definition update_staff ::
  "db \<Rightarrow> caller \<Rightarrow> timestamptz \<Rightarrow> uuid \<Rightarrow> (staff_row \<Rightarrow> staff_row) \<Rightarrow> error + db" where
  "update_staff d c now k set_clause =
     (case update_stmt d c Staff k (\<lambda>r. handle_updated_at now (set_clause r)) (staff d) of
        Inl e \<Rightarrow> Inl e | Inr rows \<Rightarrow> commit (d\<lparr>staff := rows\<rparr>))"

definition delete_staff :: "db \<Rightarrow> caller \<Rightarrow> uuid \<Rightarrow> error + db" where
  "delete_staff d c k = commit (d\<lparr>staff := delete_stmt d c Staff k (staff d)\<rparr>)"

definition insert_activities :: "db \<Rightarrow> caller \<Rightarrow> activities_row \<Rightarrow> error + db" where
  "insert_activities d c NEW =
     (case insert_stmt d c Activities NEW (activities d) of
        Inl e \<Rightarrow> Inl e | Inr rows \<Rightarrow> commit (d\<lparr>activities := rows\<rparr>))"

definition update_activities ::
  "db \<Rightarrow> caller \<Rightarrow> timestamptz \<Rightarrow> uuid \<Rightarrow> (activities_row \<Rightarrow> activities_row)
     \<Rightarrow> error + db" where
  "update_activities d c now k set_clause =
     (case update_stmt d c Activities k (\<lambda>r. handle_updated_at now (set_clause r))
             (activities d) of
        Inl e \<Rightarrow> Inl e | Inr rows \<Rightarrow> commit (d\<lparr>activities := rows\<rparr>))"

definition delete_activities :: "db \<Rightarrow> caller \<Rightarrow> uuid \<Rightarrow> error + db" where
  "delete_activities d c k =
     commit (d\<lparr>activities := delete_stmt d c Activities k (activities d)\<rparr>)"

text \<open>\<open>user_roles\<close> has no \<open>updated_at\<close> and no trigger.\<close>

definition insert_user_roles :: "db \<Rightarrow> caller \<Rightarrow> user_roles_row \<Rightarrow> error + db" where
  "insert_user_roles d c NEW =
     (case insert_stmt d c User_roles NEW (user_roles d) of
        Inl e \<Rightarrow> Inl e | Inr rows \<Rightarrow> commit (d\<lparr>user_roles := rows\<rparr>))"

definition update_user_roles ::
  "db \<Rightarrow> caller \<Rightarrow> uuid \<Rightarrow> (user_roles_row \<Rightarrow> user_roles_row) \<Rightarrow> error + db" where
  "update_user_roles d c k set_clause =
     (case update_stmt d c User_roles k set_clause (user_roles d) of
        Inl e \<Rightarrow> Inl e | Inr rows \<Rightarrow> commit (d\<lparr>user_roles := rows\<rparr>))"

definition delete_user_roles :: "db \<Rightarrow> caller \<Rightarrow> uuid \<Rightarrow> error + db" where
  "delete_user_roles d c k =
     commit (d\<lparr>user_roles := delete_stmt d c User_roles k (user_roles d)\<rparr>)"

definition insert_profiles :: "db \<Rightarrow> caller \<Rightarrow> profiles_row \<Rightarrow> error + db" where
  "insert_profiles d c NEW =
     (case insert_stmt d c Profiles NEW (profiles d) of
        Inl e \<Rightarrow> Inl e | Inr rows \<Rightarrow> commit (d\<lparr>profiles := rows\<rparr>))"

definition update_profiles ::
  "db \<Rightarrow> caller \<Rightarrow> timestamptz \<Rightarrow> uuid \<Rightarrow> (profiles_row \<Rightarrow> profiles_row) \<Rightarrow> error + db" where
  "update_profiles d c now k set_clause =
     (case update_stmt d c Profiles k (\<lambda>r. handle_updated_at now (set_clause r))
             (profiles d) of
        Inl e \<Rightarrow> Inl e | Inr rows \<Rightarrow> commit (d\<lparr>profiles := rows\<rparr>))"

text \<open>
  Deleting profiles: \<open>user_roles.user_id\<close> is declared \<open>ON DELETE CASCADE\<close>, so the role
  rows of a deleted profile go with it. \<open>created_by\<close> of news, staff and activities names no
  action, so a content row that still references a deleted profile violates its reference.
  A caller of the API deletes the rows that its policies let it see; the owner of the table
  (and a deletion that cascades from \<open>auth.users\<close>) is not subject to the policies.
\<close>

definition delete_profiles_where :: "(profiles_row \<Rightarrow> bool) \<Rightarrow> db \<Rightarrow> error + db" where
  "delete_profiles_where P d =
     (let gone = map row_id (filter P (profiles d))
      in commit (d\<lparr>profiles := filter (\<lambda>r. \<not> P r) (profiles d),
                   user_roles := filter (\<lambda>r. user_id r \<notin> set gone) (user_roles d)\<rparr>))"

definition delete_profiles :: "db \<Rightarrow> caller \<Rightarrow> uuid \<Rightarrow> error + db" where
  "delete_profiles d c k = delete_profiles_where (targeted d c Profiles DELETE k) d"

definition delete_profiles_as_owner :: "db \<Rightarrow> uuid \<Rightarrow> error + db" where
  "delete_profiles_as_owner d k = delete_profiles_where (\<lambda>r. row_id r = k) d"

section \<open>Reading a table\<close>

text \<open>
  A \<open>SELECT\<close> returns the rows that pass the \<open>USING\<close> expressions for \<open>SELECT\<close>.
  \<^verbatim>\<open>.order(column, { ascending: false })\<close> is \<open>ORDER BY column DESC\<close>: larger values
  first, and \<open>NULL\<close> before every value. (The order of rows with equal keys is left open
  by the database; the insertion sort here keeps them in table order.)
\<close>

definition select_stmt ::
  "db \<Rightarrow> caller \<Rightarrow> pg_table \<Rightarrow> 'a pg_row_scheme list \<Rightarrow> 'a pg_row_scheme list" where
  "select_stmt d c t rows = filter (\<lambda>r. rls_using d c t SELECT (row_id r)) rows"

fun desc_before :: "timestamptz option \<Rightarrow> timestamptz option \<Rightarrow> bool" where
  "desc_before None b = True"
| "desc_before (Some x) None = False"
| "desc_before (Some x) (Some y) = (y \<le> x)"

fun insert_desc :: "('r \<Rightarrow> timestamptz option) \<Rightarrow> 'r \<Rightarrow> 'r list \<Rightarrow> 'r list" where
  "insert_desc key r [] = [r]"
| "insert_desc key r (x # xs) =
     (if desc_before (key r) (key x) then r # x # xs else x # insert_desc key r xs)"

definition order_desc :: "('r \<Rightarrow> timestamptz option) \<Rightarrow> 'r list \<Rightarrow> 'r list" where
  "order_desc key rows = foldr (insert_desc key) rows []"

definition select_news :: "db \<Rightarrow> caller \<Rightarrow> news_row list" where
  "select_news d c = order_desc published_date (select_stmt d c News (news d))"

definition select_activities :: "db \<Rightarrow> caller \<Rightarrow> activities_row list" where
  "select_activities d c =
     order_desc (\<lambda>r. Some (activity_date r)) (select_stmt d c Activities (activities d))"

definition select_staff :: "db \<Rightarrow> caller \<Rightarrow> staff_row list" where
  "select_staff d c = order_desc created_at (select_stmt d c Staff (staff d))"

text \<open>Role rows are read without an order.\<close>

definition select_user_roles :: "db \<Rightarrow> caller \<Rightarrow> user_roles_row list" where
  "select_user_roles d c = select_stmt d c User_roles (user_roles d)"

section \<open>The admin panels\<close>

text \<open>
  \<open>NewsManager\<close>, \<open>StaffManager\<close> and \<open>ActivitiesManager\<close> hold the same four pieces of
  state: the list (\<open>newsList\<close>, \<open>staffList\<close>, \<open>activitiesList\<close>), \<open>loading\<close>,
  \<open>editingId\<close> and \<open>formData\<close>. The notifications they raise are kept as a list. The
  objects of the list are the rows that the query returned. A handler that calls the
  database takes the state of the database with the state of the component and returns both.
\<close>

datatype toast = Toast_success | Toast_error

record ('r, 'f) manager =
  itemList :: "'r list"
  loading :: bool
  editingId :: "uuid option"
  formData :: 'f
  toasts :: "toast list"

text \<open>
  \<^verbatim>\<open>if (error) throw error; setList(data || []);\<close> with \<^verbatim>\<open>toast.error\<close> in the
  \<^verbatim>\<open>catch\<close> and \<^verbatim>\<open>setLoading(false)\<close> in the \<^verbatim>\<open>finally\<close>.
\<close>

definition fetched :: "error + 'r list \<Rightarrow> ('r, 'f) manager \<Rightarrow> ('r, 'f) manager" where
  "fetched response s =
     (case response of
        Inl e \<Rightarrow> s\<lparr>loading := False, toasts := toasts s @ [Toast_error]\<rparr>
      | Inr data \<Rightarrow> s\<lparr>itemList := data, loading := False\<rparr>)"

text \<open>
  The end of every \<open>handleSubmit\<close>: an error of the statement goes to the \<^verbatim>\<open>catch\<close>,
  which only notifies; without an error the form is set to its empty value, \<open>editingId\<close> to
  \<open>null\<close>, and the list is fetched again.
\<close>

definition submitted ::
  "'f \<Rightarrow> (db \<Rightarrow> ('r, 'f) manager \<Rightarrow> ('r, 'f) manager) \<Rightarrow> error + db
     \<Rightarrow> db \<times> ('r, 'f) manager \<Rightarrow> db \<times> ('r, 'f) manager" where
  "submitted empty_form fetch response ds =
     (case response of
        Inl e \<Rightarrow> (fst ds, (snd ds)\<lparr>toasts := toasts (snd ds) @ [Toast_error]\<rparr>)
      | Inr d' \<Rightarrow>
          (d', fetch d' ((snd ds)\<lparr>editingId := None, formData := empty_form,
                                 toasts := toasts (snd ds) @ [Toast_success]\<rparr>)))"

text \<open>
  The end of every \<open>handleDelete\<close>: the notification and a new fetch without an error, the
  notification of the \<^verbatim>\<open>catch\<close> with one.
\<close>

definition deleted ::
  "(db \<Rightarrow> ('r, 'f) manager \<Rightarrow> ('r, 'f) manager) \<Rightarrow> error + db
     \<Rightarrow> db \<times> ('r, 'f) manager \<Rightarrow> db \<times> ('r, 'f) manager" where
  "deleted fetch response ds =
     (case response of
        Inl e \<Rightarrow> (fst ds, (snd ds)\<lparr>toasts := toasts (snd ds) @ [Toast_error]\<rparr>)
      | Inr d' \<Rightarrow> (d', fetch d' ((snd ds)\<lparr>toasts := toasts (snd ds) @ [Toast_success]\<rparr>)))"

text \<open>\<^verbatim>\<open>x || ""\<close> on a value of type \<^verbatim>\<open>string | null\<close>.\<close>

fun or_empty :: "string option \<Rightarrow> string" where
  "or_empty None = ''''"
| "or_empty (Some s) = s"

subsection \<open>NewsManager\<close>

record news_form =
  nf_title :: string
  nf_content :: string
  nf_image_url :: string

type_synonym news_manager = "(news_row, news_form) manager"

definition empty_news_form :: news_form where
  "empty_news_form = \<lparr>nf_title = '''', nf_content = '''', nf_image_url = ''''\<rparr>"

definition fetchNews :: "db \<Rightarrow> caller \<Rightarrow> news_manager \<Rightarrow> news_manager" where
  "fetchNews d c s = fetched (Inr (select_news d c)) s"

text \<open>
  \<^verbatim>\<open>.update(formData)\<close> sets the three columns of the form;
  \<^verbatim>\<open>.insert([formData])\<close> gives the same three, and the other columns take their defaults:
  a generated id, \<open>NOW()\<close> for the three timestamps, \<open>NULL\<close> for \<open>created_by\<close>.
\<close>

definition news_set_clause :: "news_form \<Rightarrow> news_row \<Rightarrow> news_row" where
  "news_set_clause f r =
     r\<lparr>n_title := nf_title f, n_content := nf_content f, n_image_url := Some (nf_image_url f)\<rparr>"

definition news_new_row :: "timestamptz \<Rightarrow> uuid \<Rightarrow> news_form \<Rightarrow> news_row" where
  "news_new_row now gen f =
     \<lparr>row_id = gen, created_at = Some now, updated_at = Some now, created_by = None,
      n_title = nf_title f, n_content = nf_content f, n_image_url = Some (nf_image_url f),
      published_date = Some now\<rparr>"

text \<open>
  The statement of \<open>handleSubmit\<close>: an update of the row \<open>editingId\<close> when there is
  one (ids are not empty, so \<^verbatim>\<open>if (editingId)\<close> tests for \<open>null\<close>), an insert
  otherwise.
\<close>

definition submit_news ::
  "caller \<Rightarrow> timestamptz \<Rightarrow> uuid \<Rightarrow> db \<times> news_manager \<Rightarrow> error + db" where
  "submit_news c now gen ds =
     (case editingId (snd ds) of
        Some k \<Rightarrow> update_news (fst ds) c now k (news_set_clause (formData (snd ds)))
      | None \<Rightarrow> insert_news (fst ds) c (news_new_row now gen (formData (snd ds))))"

definition handleSubmit_news ::
  "caller \<Rightarrow> timestamptz \<Rightarrow> uuid \<Rightarrow> db \<times> news_manager \<Rightarrow> db \<times> news_manager" where
  "handleSubmit_news c now gen ds =
     submitted empty_news_form (\<lambda>d. fetchNews d c) (submit_news c now gen ds) ds"

definition handleEdit_news :: "news_row \<Rightarrow> news_manager \<Rightarrow> news_manager" where
  "handleEdit_news n s =
     s\<lparr>editingId := Some (row_id n),
       formData := \<lparr>nf_title = n_title n, nf_content = n_content n,
                     nf_image_url = or_empty (n_image_url n)\<rparr>\<rparr>"

definition handleDelete_news ::
  "caller \<Rightarrow> bool \<Rightarrow> uuid \<Rightarrow> db \<times> news_manager \<Rightarrow> db \<times> news_manager" where
  "handleDelete_news c confirmed k ds =
     (if \<not> confirmed then ds
      else deleted (\<lambda>d. fetchNews d c) (delete_news (fst ds) c k) ds)"

definition handleCancel_news :: "news_manager \<Rightarrow> news_manager" where
  "handleCancel_news s = s\<lparr>editingId := None, formData := empty_news_form\<rparr>"

subsection \<open>StaffManager\<close>

record staff_form =
  sf_full_name :: string
  sf_position :: string
  sf_department :: string
  sf_email :: string
  sf_phone :: string
  sf_image_url :: string
  sf_bio :: string

type_synonym staff_manager = "(staff_row, staff_form) manager"

definition empty_staff_form :: staff_form where
  "empty_staff_form =
     \<lparr>sf_full_name = '''', sf_position = '''', sf_department = '''', sf_email = '''',
      sf_phone = '''', sf_image_url = '''', sf_bio = ''''\<rparr>"

definition fetchStaff :: "db \<Rightarrow> caller \<Rightarrow> staff_manager \<Rightarrow> staff_manager" where
  "fetchStaff d c s = fetched (Inr (select_staff d c)) s"

definition staff_set_clause :: "staff_form \<Rightarrow> staff_row \<Rightarrow> staff_row" where
  "staff_set_clause f r =
     r\<lparr>s_full_name := sf_full_name f, s_position := sf_position f,
       department := Some (sf_department f), s_email := Some (sf_email f),
       phone := Some (sf_phone f), s_image_url := Some (sf_image_url f),
       bio := Some (sf_bio f)\<rparr>"

definition staff_new_row :: "timestamptz \<Rightarrow> uuid \<Rightarrow> staff_form \<Rightarrow> staff_row" where
  "staff_new_row now gen f =
     \<lparr>row_id = gen, created_at = Some now, updated_at = Some now, created_by = None,
      s_full_name = sf_full_name f, s_position = sf_position f,
      department = Some (sf_department f), s_email = Some (sf_email f),
      phone = Some (sf_phone f), s_image_url = Some (sf_image_url f),
      bio = Some (sf_bio f)\<rparr>"

definition submit_staff ::
  "caller \<Rightarrow> timestamptz \<Rightarrow> uuid \<Rightarrow> db \<times> staff_manager \<Rightarrow> error + db" where
  "submit_staff c now gen ds =
     (case editingId (snd ds) of
        Some k \<Rightarrow> update_staff (fst ds) c now k (staff_set_clause (formData (snd ds)))
      | None \<Rightarrow> insert_staff (fst ds) c (staff_new_row now gen (formData (snd ds))))"

definition handleSubmit_staff ::
  "caller \<Rightarrow> timestamptz \<Rightarrow> uuid \<Rightarrow> db \<times> staff_manager \<Rightarrow> db \<times> staff_manager" where
  "handleSubmit_staff c now gen ds =
     submitted empty_staff_form (\<lambda>d. fetchStaff d c) (submit_staff c now gen ds) ds"

definition handleEdit_staff :: "staff_row \<Rightarrow> staff_manager \<Rightarrow> staff_manager" where
  "handleEdit_staff m s =
     s\<lparr>editingId := Some (row_id m),
       formData := \<lparr>sf_full_name = s_full_name m, sf_position = s_position m,
                     sf_department = or_empty (department m), sf_email = or_empty (s_email m),
                     sf_phone = or_empty (phone m), sf_image_url = or_empty (s_image_url m),
                     sf_bio = or_empty (bio m)\<rparr>\<rparr>"

definition handleDelete_staff ::
  "caller \<Rightarrow> bool \<Rightarrow> uuid \<Rightarrow> db \<times> staff_manager \<Rightarrow> db \<times> staff_manager" where
  "handleDelete_staff c confirmed k ds =
     (if \<not> confirmed then ds
      else deleted (\<lambda>d. fetchStaff d c) (delete_staff (fst ds) c k) ds)"

definition handleCancel_staff :: "staff_manager \<Rightarrow> staff_manager" where
  "handleCancel_staff s = s\<lparr>editingId := None, formData := empty_staff_form\<rparr>"

subsection \<open>ActivitiesManager\<close>

text \<open>
  The date of the form is the text of a \<^verbatim>\<open>datetime-local\<close> input. Two conversions are
  not code of the repository and are parameters: \<open>toISOString\<close>, the text that
  \<^verbatim>\<open>new Date(activity.activity_date).toISOString()\<close> gives for a stored date, and
  \<open>timestamptz_in\<close>, the date that the database reads from a text, if it reads one.
\<close>

record activities_form =
  af_title :: string
  af_description :: string
  af_activity_date :: string
  af_location :: string
  af_image_url :: string

type_synonym activities_manager = "(activities_row, activities_form) manager"

definition empty_activities_form :: activities_form where
  "empty_activities_form =
     \<lparr>af_title = '''', af_description = '''', af_activity_date = '''', af_location = '''',
      af_image_url = ''''\<rparr>"

definition fetchActivities ::
  "db \<Rightarrow> caller \<Rightarrow> activities_manager \<Rightarrow> activities_manager" where
  "fetchActivities d c s = fetched (Inr (select_activities d c)) s"

definition activities_set_clause ::
  "activities_form \<Rightarrow> timestamptz \<Rightarrow> activities_row \<Rightarrow> activities_row" where
  "activities_set_clause f date r =
     r\<lparr>a_title := af_title f, description := af_description f, activity_date := date,
       location := Some (af_location f), a_image_url := Some (af_image_url f)\<rparr>"

definition activities_new_row ::
  "timestamptz \<Rightarrow> uuid \<Rightarrow> activities_form \<Rightarrow> timestamptz \<Rightarrow> activities_row" where
  "activities_new_row now gen f date =
     \<lparr>row_id = gen, created_at = Some now, updated_at = Some now, created_by = None,
      a_title = af_title f, description = af_description f, activity_date = date,
      location = Some (af_location f), a_image_url = Some (af_image_url f)\<rparr>"

text \<open>A text that the database does not read as a date is an error of the statement.\<close>

definition submit_activities ::
  "(string \<Rightarrow> timestamptz option) \<Rightarrow> caller \<Rightarrow> timestamptz \<Rightarrow> uuid
     \<Rightarrow> db \<times> activities_manager \<Rightarrow> error + db" where
  "submit_activities timestamptz_in c now gen ds =
     (case timestamptz_in (af_activity_date (formData (snd ds))) of
        None \<Rightarrow> Inl Invalid_datetime_format
      | Some date \<Rightarrow>
          (case editingId (snd ds) of
             Some k \<Rightarrow>
               update_activities (fst ds) c now k
                 (activities_set_clause (formData (snd ds)) date)
           | None \<Rightarrow>
               insert_activities (fst ds) c
                 (activities_new_row now gen (formData (snd ds)) date)))"

definition handleSubmit_activities ::
  "(string \<Rightarrow> timestamptz option) \<Rightarrow> caller \<Rightarrow> timestamptz \<Rightarrow> uuid
     \<Rightarrow> db \<times> activities_manager \<Rightarrow> db \<times> activities_manager" where
  "handleSubmit_activities timestamptz_in c now gen ds =
     submitted empty_activities_form (\<lambda>d. fetchActivities d c)
       (submit_activities timestamptz_in c now gen ds) ds"

definition handleEdit_activities ::
  "(timestamptz \<Rightarrow> string) \<Rightarrow> activities_row \<Rightarrow> activities_manager \<Rightarrow> activities_manager"
  where
  "handleEdit_activities toISOString a s =
     s\<lparr>editingId := Some (row_id a),
       formData := \<lparr>af_title = a_title a, af_description = description a,
                     af_activity_date = take 16 (toISOString (activity_date a)),
                     af_location = or_empty (location a),
                     af_image_url = or_empty (a_image_url a)\<rparr>\<rparr>"

definition handleDelete_activities ::
  "caller \<Rightarrow> bool \<Rightarrow> uuid \<Rightarrow> db \<times> activities_manager \<Rightarrow> db \<times> activities_manager" where
  "handleDelete_activities c confirmed k ds =
     (if \<not> confirmed then ds
      else deleted (\<lambda>d. fetchActivities d c) (delete_activities (fst ds) c k) ds)"

definition handleCancel_activities :: "activities_manager \<Rightarrow> activities_manager" where
  "handleCancel_activities s = s\<lparr>editingId := None, formData := empty_activities_form\<rparr>"

section \<open>Histories of the database\<close>

text \<open>
  The statements that a caller of the API can send, under the policies, and that the owner
  of the tables can run without them.
\<close>

datatype statement =
    Insert_news news_row
  | Update_news uuid "news_row \<Rightarrow> news_row"
  | Delete_news uuid
  | Insert_staff staff_row
  | Update_staff uuid "staff_row \<Rightarrow> staff_row"
  | Delete_staff uuid
  | Insert_activities activities_row
  | Update_activities uuid "activities_row \<Rightarrow> activities_row"
  | Delete_activities uuid
  | Insert_user_roles user_roles_row
  | Update_user_roles uuid "user_roles_row \<Rightarrow> user_roles_row"
  | Delete_user_roles uuid
  | Insert_profiles profiles_row
  | Update_profiles uuid "profiles_row \<Rightarrow> profiles_row"
  | Delete_profiles uuid

fun execute :: "db \<Rightarrow> caller \<Rightarrow> timestamptz \<Rightarrow> statement \<Rightarrow> error + db" where
  "execute d c now (Insert_news NEW) = insert_news d c NEW"
| "execute d c now (Update_news k f) = update_news d c now k f"
| "execute d c now (Delete_news k) = delete_news d c k"
| "execute d c now (Insert_staff NEW) = insert_staff d c NEW"
| "execute d c now (Update_staff k f) = update_staff d c now k f"
| "execute d c now (Delete_staff k) = delete_staff d c k"
| "execute d c now (Insert_activities NEW) = insert_activities d c NEW"
| "execute d c now (Update_activities k f) = update_activities d c now k f"
| "execute d c now (Delete_activities k) = delete_activities d c k"
| "execute d c now (Insert_user_roles NEW) = insert_user_roles d c NEW"
| "execute d c now (Update_user_roles k f) = update_user_roles d c k f"
| "execute d c now (Delete_user_roles k) = delete_user_roles d c k"
| "execute d c now (Insert_profiles NEW) = insert_profiles d c NEW"
| "execute d c now (Update_profiles k f) = update_profiles d c now k f"
| "execute d c now (Delete_profiles k) = delete_profiles d c k"

text \<open>
  Row-level security is enabled on the tables, not forced
  (\<^verbatim>\<open>ENABLE ROW LEVEL SECURITY\<close>): the owner of the tables, and a role that bypasses
  row-level security, run the same statements without the policies. Every row is visible to
  them and every new row is accepted; the triggers and the constraints apply as for any
  caller. This is how the first admin gets its role row, which no policy lets a caller
  insert.
\<close>

fun execute_as_owner :: "db \<Rightarrow> timestamptz \<Rightarrow> statement \<Rightarrow> error + db" where
  "execute_as_owner d now (Insert_news NEW) = commit (d\<lparr>news := news d @ [NEW]\<rparr>)"
| "execute_as_owner d now (Update_news k f) =
     commit (d\<lparr>news :=
       map (\<lambda>r. if row_id r = k then handle_updated_at now (f r) else r) (news d)\<rparr>)"
| "execute_as_owner d now (Delete_news k) =
     commit (d\<lparr>news := filter (\<lambda>r. row_id r \<noteq> k) (news d)\<rparr>)"
| "execute_as_owner d now (Insert_staff NEW) = commit (d\<lparr>staff := staff d @ [NEW]\<rparr>)"
| "execute_as_owner d now (Update_staff k f) =
     commit (d\<lparr>staff :=
       map (\<lambda>r. if row_id r = k then handle_updated_at now (f r) else r) (staff d)\<rparr>)"
| "execute_as_owner d now (Delete_staff k) =
     commit (d\<lparr>staff := filter (\<lambda>r. row_id r \<noteq> k) (staff d)\<rparr>)"
| "execute_as_owner d now (Insert_activities NEW) =
     commit (d\<lparr>activities := activities d @ [NEW]\<rparr>)"
| "execute_as_owner d now (Update_activities k f) =
     commit (d\<lparr>activities :=
       map (\<lambda>r. if row_id r = k then handle_updated_at now (f r) else r) (activities d)\<rparr>)"
| "execute_as_owner d now (Delete_activities k) =
     commit (d\<lparr>activities := filter (\<lambda>r. row_id r \<noteq> k) (activities d)\<rparr>)"
| "execute_as_owner d now (Insert_user_roles NEW) =
     commit (d\<lparr>user_roles := user_roles d @ [NEW]\<rparr>)"
| "execute_as_owner d now (Update_user_roles k f) =
     commit (d\<lparr>user_roles := map (\<lambda>r. if row_id r = k then f r else r) (user_roles d)\<rparr>)"
| "execute_as_owner d now (Delete_user_roles k) =
     commit (d\<lparr>user_roles := filter (\<lambda>r. row_id r \<noteq> k) (user_roles d)\<rparr>)"
| "execute_as_owner d now (Insert_profiles NEW) =
     commit (d\<lparr>profiles := profiles d @ [NEW]\<rparr>)"
| "execute_as_owner d now (Update_profiles k f) =
     commit (d\<lparr>profiles :=
       map (\<lambda>r. if row_id r = k then handle_updated_at now (f r) else r) (profiles d)\<rparr>)"
| "execute_as_owner d now (Delete_profiles k) = delete_profiles_as_owner d k"

definition empty_db :: db where
  "empty_db =
     \<lparr>auth_users = [], profiles = [], user_roles = [], news = [], staff = [],
      activities = []\<rparr>"

text \<open>
  The states that the database reaches from the empty one: by a statement of a caller
  under the policies, by a registration, or by a statement of the owner.
\<close>

inductive reachable :: "db \<Rightarrow> bool" where
  initial: "reachable empty_db"
| by_statement: "reachable d \<Longrightarrow> execute d c now s = Inr d' \<Longrightarrow> reachable d'"
| by_registration: "reachable d \<Longrightarrow> register now NEW d = Inr d' \<Longrightarrow> reachable d'"
| by_owner: "reachable d \<Longrightarrow> execute_as_owner d now s = Inr d' \<Longrightarrow> reachable d'"

text \<open>The number of role rows of a profile for a role.\<close>

definition role_rows :: "db \<Rightarrow> uuid \<Rightarrow> app_role \<Rightarrow> user_roles_row list" where
  "role_rows d p r = filter (\<lambda>x. user_id x = p \<and> role x = r) (user_roles d)"

text \<open>\<open>a > b\<close> on two nullable timestamps: true only when both are present.\<close>

fun later_than :: "timestamptz option \<Rightarrow> timestamptz option \<Rightarrow> bool" where
  "later_than (Some a) (Some b) = (b < a)"
| "later_than a b = False"

section \<open>A small database\<close>

text \<open>
  Two identities: 1, who holds the admin role, and 2, who holds no role. One news item,
  created by 1 and written at time 100 with an \<open>updated_at\<close> of 500 given by the caller.
\<close>

definition ada :: auth_user where
  "ada = \<lparr>au_id = 1, au_email = Some ''a@x.com'',
          raw_user_meta_data = [(''full_name'', Some ''A'')]\<rparr>"

definition bob :: auth_user where
  "bob = \<lparr>au_id = 2, au_email = Some ''b@x.com'', raw_user_meta_data = []\<rparr>"

definition ada_admin :: user_roles_row where
  "ada_admin = \<lparr>row_id = 10, created_at = Some 20, user_id = 1, role = admin\<rparr>"

definition first_news :: news_row where
  "first_news =
     \<lparr>row_id = 100, created_at = Some 100, updated_at = Some 500, created_by = Some 1,
      n_title = ''Term dates'', n_content = ''See the calendar'', n_image_url = None,
      published_date = Some 100\<rparr>"

definition school_db :: db where
  "school_db =
     \<lparr>auth_users = [ada, bob],
      profiles = [new_profile 10 ada ''a@x.com'', new_profile 11 bob ''b@x.com''],
      user_roles = [ada_admin], news = [first_news], staff = [], activities = []\<rparr>"

definition edited :: news_form where
  "edited = \<lparr>nf_title = ''Term dates'', nf_content = ''Changed'', nf_image_url = ''''\<rparr>"

definition bob_admin :: user_roles_row where
  "bob_admin = \<lparr>row_id = 11, created_at = Some 30, user_id = 2, role = admin\<rparr>"

definition later_news :: news_row where
  "later_news =
     \<lparr>row_id = 101, created_at = Some 300, updated_at = Some 300, created_by = None,
      n_title = ''Sports day'', n_content = ''On Friday'', n_image_url = Some '''',
      published_date = Some 300\<rparr>"

definition blank_news :: news_form where
  "blank_news = \<lparr>nf_title = ''Sports day'', nf_content = ''On Friday'', nf_image_url = ''''\<rparr>"

definition start_state :: news_manager where
  "start_state =
     \<lparr>itemList = [], loading = True, editingId = None, formData = blank_news, toasts = []\<rparr>"

text \<open>The table and the command of a statement.\<close>

fun table_of :: "statement \<Rightarrow> pg_table" where
  "table_of (Insert_news NEW) = News"
| "table_of (Update_news k f) = News"
| "table_of (Delete_news k) = News"
| "table_of (Insert_staff NEW) = Staff"
| "table_of (Update_staff k f) = Staff"
| "table_of (Delete_staff k) = Staff"
| "table_of (Insert_activities NEW) = Activities"
| "table_of (Update_activities k f) = Activities"
| "table_of (Delete_activities k) = Activities"
| "table_of (Insert_user_roles NEW) = User_roles"
| "table_of (Update_user_roles k f) = User_roles"
| "table_of (Delete_user_roles k) = User_roles"
| "table_of (Insert_profiles NEW) = Profiles"
| "table_of (Update_profiles k f) = Profiles"
| "table_of (Delete_profiles k) = Profiles"

fun command_of :: "statement \<Rightarrow> command" where
  "command_of (Insert_news NEW) = INSERT"
| "command_of (Update_news k f) = UPDATE"
| "command_of (Delete_news k) = DELETE"
| "command_of (Insert_staff NEW) = INSERT"
| "command_of (Update_staff k f) = UPDATE"
| "command_of (Delete_staff k) = DELETE"
| "command_of (Insert_activities NEW) = INSERT"
| "command_of (Update_activities k f) = UPDATE"
| "command_of (Delete_activities k) = DELETE"
| "command_of (Insert_user_roles NEW) = INSERT"
| "command_of (Update_user_roles k f) = UPDATE"
| "command_of (Delete_user_roles k) = DELETE"
| "command_of (Insert_profiles NEW) = INSERT"
| "command_of (Update_profiles k f) = UPDATE"
| "command_of (Delete_profiles k) = DELETE"

section \<open>What the policies decide\<close>

lemma has_role_None [simp]: "has_role d None r = False"
  by (simp add: has_role_def list_ex_iff)

lemma has_role_is_authenticated: "has_role d (auth_uid c) r \<Longrightarrow> is_authenticated c"
  by (cases c) simp_all

lemma rls_using_content:
  "t = News \<or> t = Staff \<or> t = Activities \<Longrightarrow>
   rls_using d c t cmd k = (cmd = SELECT \<or> has_role d (auth_uid c) admin)"
  by (cases cmd) (auto simp: rls_using_def policies_def applies_def passes_def)

lemma rls_with_check_content:
  "t = News \<or> t = Staff \<or> t = Activities \<Longrightarrow>
   rls_with_check d c t cmd k = (cmd = SELECT \<or> has_role d (auth_uid c) admin)"
  by (cases cmd)
     (auto simp: rls_with_check_def policies_def applies_def passes_def check_expr_def)

lemma rls_using_user_roles:
  "rls_using d c User_roles cmd k =
     ((cmd = SELECT \<and> is_authenticated c) \<or> has_role d (auth_uid c) admin)"
  by (cases cmd) (auto simp: rls_using_def policies_def applies_def passes_def)

lemma rls_with_check_user_roles:
  "rls_with_check d c User_roles cmd k =
     ((cmd = SELECT \<and> is_authenticated c) \<or> has_role d (auth_uid c) admin)"
  by (cases cmd)
     (auto simp: rls_with_check_def policies_def applies_def passes_def check_expr_def)

lemma rls_using_profiles:
  "rls_using d c Profiles cmd k =
     (cmd = SELECT \<or> (cmd = UPDATE \<and> auth_uid c = Some k))"
  by (cases cmd) (auto simp: rls_using_def policies_def applies_def passes_def)

lemma rls_with_check_profiles:
  "rls_with_check d c Profiles cmd k =
     (cmd = SELECT \<or> ((cmd = UPDATE \<or> cmd = INSERT) \<and> auth_uid c = Some k))"
  by (cases cmd)
     (auto simp: rls_with_check_def policies_def applies_def passes_def check_expr_def)

lemma insert_check_admin_tables:
  "t \<noteq> Profiles \<Longrightarrow> rls_with_check d c t INSERT k = has_role d (auth_uid c) admin"
  by (cases t) (simp_all add: rls_with_check_content rls_with_check_user_roles)

lemma targeted_admin_tables:
  "t \<noteq> Profiles \<Longrightarrow> cmd = UPDATE \<or> cmd = DELETE \<Longrightarrow>
   targeted d c t cmd k r = (row_id r = k \<and> has_role d (auth_uid c) admin)"
  by (cases t)
     (auto simp: targeted_def rls_using_content rls_using_user_roles
           dest: has_role_is_authenticated)

lemma new_row_ok_admin_tables:
  "t \<noteq> Profiles \<Longrightarrow> new_row_ok d c t NEW = has_role d (auth_uid c) admin"
  by (cases t)
     (auto simp: new_row_ok_def rls_using_content rls_using_user_roles
                 rls_with_check_content rls_with_check_user_roles
           dest: has_role_is_authenticated)

lemma stmts_of_admin:
  assumes "t \<noteq> Profiles" and "has_role d (auth_uid c) admin"
  shows "insert_stmt d c t NEW rows = Inr (rows @ [NEW])"
    and "update_stmt d c t k f rows = Inr (map (\<lambda>r. if row_id r = k then f r else r) rows)"
    and "delete_stmt d c t k rows = filter (\<lambda>r. row_id r \<noteq> k) rows"
  using assms
  by (simp_all add: insert_stmt_def update_stmt_def delete_stmt_def list_ex_iff
        insert_check_admin_tables targeted_admin_tables new_row_ok_admin_tables)

lemma stmts_of_others:
  assumes "t \<noteq> Profiles" and "\<not> has_role d (auth_uid c) admin"
  shows "insert_stmt d c t NEW rows = Inl Insufficient_privilege"
    and "update_stmt d c t k f rows = Inr rows"
    and "delete_stmt d c t k rows = rows"
  using assms
  by (simp_all add: insert_stmt_def update_stmt_def delete_stmt_def list_ex_iff
        insert_check_admin_tables targeted_admin_tables new_row_ok_admin_tables)

lemma db_same [simp]:
  "d\<lparr>news := news d\<rparr> = d" "d\<lparr>staff := staff d\<rparr> = d" "d\<lparr>activities := activities d\<rparr> = d"
  "d\<lparr>user_roles := user_roles d\<rparr> = d" "d\<lparr>profiles := profiles d\<rparr> = d"
  by simp_all

lemma execute_of_others:
  assumes "table_of s \<noteq> Profiles" and "\<not> has_role d (auth_uid c) admin"
  shows "execute d c now s =
           (if command_of s = INSERT then Inl Insufficient_privilege else commit d)"
  using assms
  by (cases s)
     (simp_all add: insert_news_def update_news_def delete_news_def
        insert_staff_def update_staff_def delete_staff_def
        insert_activities_def update_activities_def delete_activities_def
        insert_user_roles_def update_user_roles_def delete_user_roles_def
        stmts_of_others)

section \<open>Writes on news, staff, activities and role rows\<close>

text \<open>
  Claim C1, as amended. On news, staff, activities and user_roles, an insert, an update or
  a delete by a caller takes effect if and only if \<open>has_role(caller, admin)\<close> holds: the
  check of an inserted row, the visibility of a row to an update or a delete, and the check
  of the new version of an updated row are each equal to that predicate. For a caller
  without the admin role an insert raises the row-level security error, while an update or
  a delete raises no error: it finds no row and leaves the table as it was.
\<close>

theorem admin_tables_write_policy:
  assumes "t = News \<or> t = Staff \<or> t = Activities \<or> t = User_roles"
  shows "rls_with_check d c t INSERT k = has_role d (auth_uid c) admin \<and>
         targeted d c t UPDATE k r = (row_id r = k \<and> has_role d (auth_uid c) admin) \<and>
         new_row_ok d c t NEW = has_role d (auth_uid c) admin \<and>
         targeted d c t DELETE k r = (row_id r = k \<and> has_role d (auth_uid c) admin) \<and>
         insert_stmt d c t NEW rows =
           (if has_role d (auth_uid c) admin then Inr (rows @ [NEW])
            else Inl Insufficient_privilege) \<and>
         update_stmt d c t k f rows =
           (if has_role d (auth_uid c) admin
            then Inr (map (\<lambda>x. if row_id x = k then f x else x) rows) else Inr rows) \<and>
         delete_stmt d c t k rows =
           (if has_role d (auth_uid c) admin then filter (\<lambda>x. row_id x \<noteq> k) rows else rows)"
proof -
  from assms have t: "t \<noteq> Profiles" by auto
  show ?thesis
    by (simp add: insert_check_admin_tables [OF t] targeted_admin_tables [OF t]
          new_row_ok_admin_tables [OF t] stmts_of_admin [OF t] stmts_of_others [OF t])
qed

theorem admin_tables_write_policy_witness:
  "insert_stmt school_db (Authenticated 2) News first_news (news school_db)
     = Inl Insufficient_privilege \<and>
   delete_stmt school_db (Authenticated 2) News 100 (news school_db) = [first_news] \<and>
   delete_stmt school_db (Authenticated 1) News 100 (news school_db) = []"
proof -
  have t: "News = News \<or> News = Staff \<or> News = Activities \<or> News = User_roles"
    by simp
  have other: "\<not> has_role school_db (Some 2) admin"
    by (simp add: has_role_def school_db_def ada_admin_def)
  have adm: "has_role school_db (Some (Suc 0)) admin"
    by (simp add: has_role_def school_db_def ada_admin_def)
  have rows: "news school_db = [first_news]" "row_id first_news = 100"
    by (simp_all add: school_db_def first_news_def)
  from admin_tables_write_policy [OF t, where d = school_db and c = "Authenticated 2"
      and k = 100 and r = first_news and NEW = first_news and rows = "news school_db"
      and f = "news_set_clause edited"]
    admin_tables_write_policy [OF t, where d = school_db and c = "Authenticated 1"
      and k = 100 and r = first_news and NEW = first_news and rows = "news school_db"
      and f = "news_set_clause edited"]
  show ?thesis
    by (simp add: other adm rows)
qed

text \<open>
  Claim C1 as stated fails for updates and deletes: identity 2 holds no admin role, and its
  delete of news item 100 returns without an error, with the database unchanged.
\<close>

theorem denied_delete_is_silent:
  "\<not> has_role school_db (auth_uid (Authenticated 2)) admin \<and>
   delete_news school_db (Authenticated 2) 100 = Inr school_db"
  by (simp add: has_role_def school_db_def ada_admin_def delete_news_def delete_stmt_def
        targeted_def rls_using_content commit_def primary_keys_ok_def user_roles_unique_ok_def
        references_ok_def creator_ok_def is_profile_def first_news_def new_profile_def
        ada_def bob_def)

section \<open>Reading role rows\<close>

text \<open>
  Claim C7. A role row is readable exactly by the authenticated callers: the policy for
  \<open>SELECT\<close> is the constant true for the role \<open>authenticated\<close>, and the admin policy
  adds no reader, since a caller with the admin role is authenticated. So an authenticated
  caller reads every role row, whatever its role, and an unauthenticated caller reads none.
\<close>

theorem user_roles_select_policy:
  "rls_using d c User_roles SELECT k = is_authenticated c \<and>
   select_user_roles d c = (if is_authenticated c then user_roles d else [])"
  by (cases c) (simp_all add: rls_using_user_roles select_user_roles_def select_stmt_def)

theorem user_roles_select_policy_witness:
  "select_user_roles school_db (Authenticated 2) = [ada_admin] \<and>
   select_user_roles school_db Anon = []"
  using user_roles_select_policy [of school_db "Authenticated 2" 10]
        user_roles_select_policy [of school_db Anon 10]
  by (simp add: school_db_def)

section \<open>Writes on profiles\<close>

lemma commit_Inr: "commit x = Inr d' \<Longrightarrow> d' = x"
  by (simp add: commit_def split: if_splits)

lemma delete_profiles_denied: "delete_profiles d c k = commit d"
  by (simp add: delete_profiles_def delete_profiles_where_def targeted_def
        rls_using_profiles)

lemma targeted_profiles:
  "targeted d c Profiles cmd k r = (cmd \<noteq> DELETE \<and> cmd \<noteq> INSERT \<and> row_id r = k \<and>
     (cmd = UPDATE \<longrightarrow> auth_uid c = Some k))"
  by (cases cmd) (auto simp: targeted_def rls_using_profiles)

lemma new_row_ok_profiles:
  "new_row_ok d c Profiles NEW = (auth_uid c = Some (row_id NEW))"
  by (simp add: new_row_ok_def rls_with_check_profiles rls_using_profiles)

lemma update_stmt_profiles:
  "update_stmt d c Profiles k f rows =
     (if auth_uid c = Some k \<and> list_ex (\<lambda>r. row_id r = k \<and> row_id (f r) \<noteq> k) rows
      then Inl Insufficient_privilege
      else Inr (map (\<lambda>r. if row_id r = k \<and> auth_uid c = Some k then f r else r) rows))"
proof -
  have seen: "\<And>r. targeted d c Profiles UPDATE k r = (row_id r = k \<and> auth_uid c = Some k)"
    by (simp add: targeted_profiles)
  show ?thesis
  proof (cases "auth_uid c = Some k")
    case True
    then show ?thesis
      by (auto simp: update_stmt_def seen new_row_ok_profiles list_ex_iff)
  next
    case False
    then show ?thesis
      by (simp add: update_stmt_def seen list_ex_iff)
  qed
qed

text \<open>
  Claim C3. A profile \<open>P\<close> is inserted exactly by the caller whose identity is the key
  of \<open>P\<close>. An update sees \<open>P\<close> exactly when the caller's identity is the key of
  \<open>P\<close>, and the row it writes is accepted exactly when the caller's identity is its key:
  the owner, and nobody else, updates the profile, and the key stays the owner's. No role
  enters either decision. No caller deletes a profile: without a policy for \<open>DELETE\<close> no
  row is visible to the statement, which leaves the database as it is.
\<close>

theorem profiles_write_policy:
  "rls_with_check d c Profiles INSERT (row_id P) = (auth_uid c = Some (row_id P)) \<and>
   insert_stmt d c Profiles P rows =
     (if auth_uid c = Some (row_id P) then Inr (rows @ [P])
      else Inl Insufficient_privilege) \<and>
   targeted d c Profiles UPDATE (row_id P) P = (auth_uid c = Some (row_id P)) \<and>
   new_row_ok d c Profiles NEW = (auth_uid c = Some (row_id NEW)) \<and>
   update_stmt d c Profiles k f rows =
     (if auth_uid c = Some k \<and> list_ex (\<lambda>r. row_id r = k \<and> row_id (f r) \<noteq> k) rows
      then Inl Insufficient_privilege
      else Inr (map (\<lambda>r. if row_id r = k \<and> auth_uid c = Some k then f r else r) rows)) \<and>
   targeted d c Profiles DELETE k P = False \<and>
   delete_stmt d c Profiles k rows = rows \<and>
   delete_profiles d c k = commit d"
  by (simp add: rls_with_check_profiles insert_stmt_def targeted_profiles
        new_row_ok_profiles update_stmt_profiles delete_stmt_def delete_profiles_denied)

text \<open>
  Identity 1 holds the admin role and still cannot update the profile of identity 2, which
  identity 2 can, as long as it keeps its key; identity 2 cannot delete it.
\<close>

theorem profiles_write_policy_witness:
  "has_role school_db (auth_uid (Authenticated 1)) admin \<and>
   update_stmt school_db (Authenticated 1) Profiles 2 (\<lambda>r. r\<lparr>p_full_name := Some ''B''\<rparr>)
       (profiles school_db)
     = Inr (profiles school_db) \<and>
   update_stmt school_db (Authenticated 2) Profiles 2 (\<lambda>r. r\<lparr>p_full_name := Some ''B''\<rparr>)
       (profiles school_db)
     = Inr [new_profile 10 ada ''a@x.com'',
            (new_profile 11 bob ''b@x.com'')\<lparr>p_full_name := Some ''B''\<rparr>] \<and>
   update_stmt school_db (Authenticated 2) Profiles 2 (\<lambda>r. r\<lparr>row_id := 3\<rparr>)
       (profiles school_db)
     = Inl Insufficient_privilege \<and>
   delete_profiles school_db (Authenticated 2) 2 = Inr school_db"
proof -
  let ?rename = "\<lambda>r::profiles_row. r\<lparr>p_full_name := Some ''B''\<rparr>"
  let ?rekey = "\<lambda>r::profiles_row. r\<lparr>row_id := 3\<rparr>"
  let ?bob = "new_profile 11 bob ''b@x.com''"
  have adm: "has_role school_db (auth_uid (Authenticated 1)) admin"
    by code_simp
  have rows: "profiles school_db = [new_profile 10 ada ''a@x.com'', ?bob]"
    "row_id (new_profile 10 ada ''a@x.com'') = 1" "row_id ?bob = 2"
    by (simp_all add: school_db_def new_profile_def ada_def bob_def)
  have ok: "commit school_db = Inr school_db"
    by code_simp
  note a = profiles_write_policy [where d = school_db and c = "Authenticated 1" and k = 2
      and f = ?rename and rows = "profiles school_db" and P = ?bob and NEW = ?bob]
  note b = profiles_write_policy [where d = school_db and c = "Authenticated 2" and k = 2
      and f = ?rename and rows = "profiles school_db" and P = ?bob and NEW = ?bob]
  note c = profiles_write_policy [where d = school_db and c = "Authenticated 2" and k = 2
      and f = ?rekey and rows = "profiles school_db" and P = ?bob and NEW = ?bob]
  from a have "update_stmt school_db (Authenticated 1) Profiles 2 ?rename (profiles school_db) =
     (if auth_uid (Authenticated 1) = Some 2 \<and>
         list_ex (\<lambda>r. row_id r = 2 \<and> row_id (?rename r) \<noteq> 2) (profiles school_db)
      then Inl Insufficient_privilege
      else Inr (map (\<lambda>r. if row_id r = 2 \<and> auth_uid (Authenticated 1) = Some 2
                          then ?rename r else r) (profiles school_db)))"
    by blast
  then have one: "update_stmt school_db (Authenticated 1) Profiles 2 ?rename (profiles school_db)
      = Inr (profiles school_db)"
    by (simp add: map_idI)
  from b have "update_stmt school_db (Authenticated 2) Profiles 2 ?rename (profiles school_db) =
     (if auth_uid (Authenticated 2) = Some 2 \<and>
         list_ex (\<lambda>r. row_id r = 2 \<and> row_id (?rename r) \<noteq> 2) (profiles school_db)
      then Inl Insufficient_privilege
      else Inr (map (\<lambda>r. if row_id r = 2 \<and> auth_uid (Authenticated 2) = Some 2
                          then ?rename r else r) (profiles school_db)))"
    by blast
  then have two: "update_stmt school_db (Authenticated 2) Profiles 2 ?rename (profiles school_db)
      = Inr [new_profile 10 ada ''a@x.com'', ?bob\<lparr>p_full_name := Some ''B''\<rparr>]"
    by (simp add: rows list_ex_iff)
  from c have "update_stmt school_db (Authenticated 2) Profiles 2 ?rekey (profiles school_db) =
     (if auth_uid (Authenticated 2) = Some 2 \<and>
         list_ex (\<lambda>r. row_id r = 2 \<and> row_id (?rekey r) \<noteq> 2) (profiles school_db)
      then Inl Insufficient_privilege
      else Inr (map (\<lambda>r. if row_id r = 2 \<and> auth_uid (Authenticated 2) = Some 2
                          then ?rekey r else r) (profiles school_db)))"
    by blast
  then have three: "update_stmt school_db (Authenticated 2) Profiles 2 ?rekey (profiles school_db)
      = Inl Insufficient_privilege"
    by (simp add: rows)
  from b have "delete_profiles school_db (Authenticated 2) 2 = commit school_db"
    by blast
  with ok have del: "delete_profiles school_db (Authenticated 2) 2 = Inr school_db"
    by simp
  show ?thesis
    using adm one two three del by blast
qed

section \<open>The update timestamp\<close>

lemma update_stmt_rows:
  "update_stmt d c t k f rows = Inr rows' \<Longrightarrow>
   rows' = map (\<lambda>r. if targeted d c t UPDATE k r then f r else r) rows"
  by (simp add: update_stmt_def split: if_splits)

lemma update_stmt_stamps:
  assumes "update_stmt d c t k (\<lambda>r. handle_updated_at now (f r)) rows = Inr rows'"
    and "i < length rows" and "targeted d c t UPDATE k (rows ! i)"
  shows "updated_at (rows' ! i) = Some now \<and>
         later_than (updated_at (rows' ! i)) (updated_at (rows ! i))
           = (\<exists>t. updated_at (rows ! i) = Some t \<and> t < now)"
proof -
  have "rows' ! i = handle_updated_at now (f (rows ! i))"
    using update_stmt_rows [OF assms(1)] assms(2,3) by simp
  then have now: "updated_at (rows' ! i) = Some now"
    by (simp add: handle_updated_at_def)
  show ?thesis
    by (cases "updated_at (rows ! i)") (simp_all add: now)
qed

lemma update_news_rows:
  "update_news d c now k f = Inr d' \<Longrightarrow>
   update_stmt d c News k (\<lambda>r. handle_updated_at now (f r)) (news d) = Inr (news d')"
  by (auto simp: update_news_def split: sum.splits dest: commit_Inr)

lemma update_staff_rows:
  "update_staff d c now k f = Inr d' \<Longrightarrow>
   update_stmt d c Staff k (\<lambda>r. handle_updated_at now (f r)) (staff d) = Inr (staff d')"
  by (auto simp: update_staff_def split: sum.splits dest: commit_Inr)

lemma update_activities_rows:
  "update_activities d c now k f = Inr d' \<Longrightarrow>
   update_stmt d c Activities k (\<lambda>r. handle_updated_at now (f r)) (activities d)
     = Inr (activities d')"
  by (auto simp: update_activities_def split: sum.splits dest: commit_Inr)

lemma update_profiles_rows:
  "update_profiles d c now k f = Inr d' \<Longrightarrow>
   update_stmt d c Profiles k (\<lambda>r. handle_updated_at now (f r)) (profiles d)
     = Inr (profiles d')"
  by (auto simp: update_profiles_def split: sum.splits dest: commit_Inr)

text \<open>
  Claim C2, as amended. After a successful update of a profiles, news, staff or activities
  row, the stored \<open>updated_at\<close> of every row that the statement updated is the \<open>NOW()\<close> of
  the statement, whatever the \<open>SET\<close> clause of the caller gave for the column. It is later
  than the previous \<open>updated_at\<close> of the row exactly when that previous value is present
  and earlier than this time.
\<close>

theorem update_stamps_updated_at:
  "(update_profiles d c now k fp = Inr d' \<and> i < length (profiles d) \<and>
      targeted d c Profiles UPDATE k (profiles d ! i) \<longrightarrow>
    updated_at (profiles d' ! i) = Some now \<and>
    later_than (updated_at (profiles d' ! i)) (updated_at (profiles d ! i))
      = (\<exists>t. updated_at (profiles d ! i) = Some t \<and> t < now)) \<and>
   (update_news d c now k fn = Inr d' \<and> i < length (news d) \<and>
      targeted d c News UPDATE k (news d ! i) \<longrightarrow>
    updated_at (news d' ! i) = Some now \<and>
    later_than (updated_at (news d' ! i)) (updated_at (news d ! i))
      = (\<exists>t. updated_at (news d ! i) = Some t \<and> t < now)) \<and>
   (update_staff d c now k fs = Inr d' \<and> i < length (staff d) \<and>
      targeted d c Staff UPDATE k (staff d ! i) \<longrightarrow>
    updated_at (staff d' ! i) = Some now \<and>
    later_than (updated_at (staff d' ! i)) (updated_at (staff d ! i))
      = (\<exists>t. updated_at (staff d ! i) = Some t \<and> t < now)) \<and>
   (update_activities d c now k fa = Inr d' \<and> i < length (activities d) \<and>
      targeted d c Activities UPDATE k (activities d ! i) \<longrightarrow>
    updated_at (activities d' ! i) = Some now \<and>
    later_than (updated_at (activities d' ! i)) (updated_at (activities d ! i))
      = (\<exists>t. updated_at (activities d ! i) = Some t \<and> t < now))"
proof (intro conjI impI)
  assume "update_profiles d c now k fp = Inr d' \<and> i < length (profiles d) \<and>
    targeted d c Profiles UPDATE k (profiles d ! i)"
  then show "updated_at (profiles d' ! i) = Some now"
    and "later_than (updated_at (profiles d' ! i)) (updated_at (profiles d ! i))
      = (\<exists>t. updated_at (profiles d ! i) = Some t \<and> t < now)"
    using update_stmt_stamps [OF update_profiles_rows, of d c now k fp d' i] by blast+
next
  assume "update_news d c now k fn = Inr d' \<and> i < length (news d) \<and>
    targeted d c News UPDATE k (news d ! i)"
  then show "updated_at (news d' ! i) = Some now"
    and "later_than (updated_at (news d' ! i)) (updated_at (news d ! i))
      = (\<exists>t. updated_at (news d ! i) = Some t \<and> t < now)"
    using update_stmt_stamps [OF update_news_rows, of d c now k fn d' i] by blast+
next
  assume "update_staff d c now k fs = Inr d' \<and> i < length (staff d) \<and>
    targeted d c Staff UPDATE k (staff d ! i)"
  then show "updated_at (staff d' ! i) = Some now"
    and "later_than (updated_at (staff d' ! i)) (updated_at (staff d ! i))
      = (\<exists>t. updated_at (staff d ! i) = Some t \<and> t < now)"
    using update_stmt_stamps [OF update_staff_rows, of d c now k fs d' i] by blast+
next
  assume "update_activities d c now k fa = Inr d' \<and> i < length (activities d) \<and>
    targeted d c Activities UPDATE k (activities d ! i)"
  then show "updated_at (activities d' ! i) = Some now"
    and "later_than (updated_at (activities d' ! i)) (updated_at (activities d ! i))
      = (\<exists>t. updated_at (activities d ! i) = Some t \<and> t < now)"
    using update_stmt_stamps [OF update_activities_rows, of d c now k fa d' i] by blast+
qed

text \<open>
  The admin edits the news item at time 600: the stored timestamp is 600, later than the
  500 it had.
\<close>

theorem update_stamps_updated_at_witness:
  "update_news school_db (Authenticated 1) 600 100 (news_set_clause edited)
     = Inr (school_db\<lparr>news := [first_news\<lparr>updated_at := Some 600,
              n_content := ''Changed'', n_image_url := Some ''''\<rparr>]\<rparr>) \<and>
   updated_at (news (school_db\<lparr>news := [first_news\<lparr>updated_at := Some 600,
              n_content := ''Changed'', n_image_url := Some ''''\<rparr>]\<rparr>) ! 0) = Some 600 \<and>
   later_than
     (updated_at (news (school_db\<lparr>news := [first_news\<lparr>updated_at := Some 600,
              n_content := ''Changed'', n_image_url := Some ''''\<rparr>]\<rparr>) ! 0))
     (updated_at (news school_db ! 0))"
proof -
  have run: "update_news school_db (Authenticated 1) 600 100 (news_set_clause edited)
     = Inr (school_db\<lparr>news := [first_news\<lparr>updated_at := Some 600,
              n_content := ''Changed'', n_image_url := Some ''''\<rparr>]\<rparr>)"
    by code_simp
  have row: "0 < length (news school_db)"
    "targeted school_db (Authenticated 1) News UPDATE 100 (news school_db ! 0)"
    by code_simp+
  have old: "updated_at (news school_db ! 0) = Some 500"
    by code_simp
  from update_stamps_updated_at [where d = school_db and c = "Authenticated 1"
      and now = 600 and k = 100 and fn = "news_set_clause edited" and i = 0
      and d' = "school_db\<lparr>news := [first_news\<lparr>updated_at := Some 600,
              n_content := ''Changed'', n_image_url := Some ''''\<rparr>]\<rparr>"] run row old
  show ?thesis
    by simp
qed

text \<open>
  Claim C2 as stated fails. No trigger runs on an insert, and \<open>updated_at\<close> is an ordinary
  column there: the admin inserts the news item with an \<open>updated_at\<close> of 500, and the
  update at time 200 stores 200, which is not later than 500.
\<close>

theorem update_after_later_stamp:
  "insert_news (school_db\<lparr>news := []\<rparr>) (Authenticated 1) first_news = Inr school_db \<and>
   updated_at first_news = Some 500 \<and>
   update_news school_db (Authenticated 1) 200 100 (news_set_clause edited)
     = Inr (school_db\<lparr>news := [first_news\<lparr>updated_at := Some 200,
              n_content := ''Changed'', n_image_url := Some ''''\<rparr>]\<rparr>) \<and>
   \<not> later_than (Some 200) (Some 500)"
  by code_simp

section \<open>Registration\<close>

lemma commit_ok:
  "commit x = Inr d' \<Longrightarrow> primary_keys_ok x \<and> user_roles_unique_ok x \<and> references_ok x"
  by (simp add: commit_def split: if_splits)

lemma commit_Inr_iff:
  "(commit x = Inr x) = (primary_keys_ok x \<and> user_roles_unique_ok x \<and> references_ok x)"
  by (auto simp: commit_def)

lemma filter_fresh_append:
  "f y \<notin> set (map f xs) \<Longrightarrow> filter (\<lambda>x. f x = f y) (xs @ [y]) = [y]"
  by (induction xs) auto

lemma register_Inr:
  assumes "register now NEW d = Inr d'"
  shows "\<exists>e. au_email NEW = Some e \<and>
           d' = d\<lparr>auth_users := auth_users d @ [NEW],
                  profiles := profiles d @ [new_profile now NEW e]\<rparr> \<and>
           filter (\<lambda>p. row_id p = au_id NEW) (profiles d') = [new_profile now NEW e]"
proof -
  from assms obtain e where e: "au_email NEW = Some e"
    by (cases "au_email NEW") (simp_all add: register_def handle_new_user_def)
  let ?x = "d\<lparr>auth_users := auth_users d @ [NEW],
              profiles := profiles d @ [new_profile now NEW e]\<rparr>"
  from assms e have c: "commit ?x = Inr d'"
    by (simp add: register_def handle_new_user_def)
  then have d': "d' = ?x"
    by (rule commit_Inr)
  from c have "distinct (map row_id (profiles ?x))"
    by (auto dest: commit_ok simp: primary_keys_ok_def)
  then have "row_id (new_profile now NEW e) \<notin> set (map row_id (profiles d))"
    by simp
  then have "filter (\<lambda>p. row_id p = row_id (new_profile now NEW e))
      (profiles d @ [new_profile now NEW e]) = [new_profile now NEW e]"
    by (rule filter_fresh_append)
  then show ?thesis
    using e d' by (simp add: new_profile_def)
qed

lemma creator_ok_more:
  "creator_ok d r \<Longrightarrow> set (map row_id (profiles d)) \<subseteq> set (map row_id (profiles x)) \<Longrightarrow>
   creator_ok x r"
  by (auto simp: creator_ok_def is_profile_def split: option.splits)

lemma register_succeeds:
  assumes ok: "commit d = Inr d"
    and fresh: "au_id NEW \<notin> set (map au_id (auth_users d))"
    and e: "au_email NEW = Some e"
  shows "register now NEW d =
           Inr (d\<lparr>auth_users := auth_users d @ [NEW],
                  profiles := profiles d @ [new_profile now NEW e]\<rparr>)"
proof -
  let ?x = "d\<lparr>auth_users := auth_users d @ [NEW],
              profiles := profiles d @ [new_profile now NEW e]\<rparr>"
  from ok have pk: "primary_keys_ok d" and un: "user_roles_unique_ok d"
    and re: "references_ok d"
    by (simp_all add: commit_Inr_iff)
  from re fresh have np: "au_id NEW \<notin> set (map row_id (profiles d))"
    by (auto simp: references_ok_def list_all_iff)
  have pk': "primary_keys_ok ?x"
    using pk fresh np by (simp add: primary_keys_ok_def new_profile_def)
  have un': "user_roles_unique_ok ?x"
    using un by (simp add: user_roles_unique_ok_def)
  have sub: "set (map row_id (profiles d)) \<subseteq> set (map row_id (profiles ?x))"
    by auto
  have re': "references_ok ?x"
    using re sub
    by (auto simp: references_ok_def list_all_iff is_profile_def new_profile_def
          intro: creator_ok_more)
  have "commit ?x = Inr ?x"
    using pk' un' re' by (simp add: commit_Inr_iff)
  then show ?thesis
    using e by (simp add: register_def handle_new_user_def)
qed

text \<open>
  Claim C4. A registration that succeeds adds the identity and exactly one profile, and
  changes nothing else; the profile has the id of the identity, its email, and the
  \<open>full_name\<close> of the metadata or the empty string when the metadata has none (the key is
  absent or bound to \<open>null\<close>). Afterwards it is the only profile with that id. If the
  insert of the profile fails, the registration fails with the same error, and no state is
  returned. On a database that satisfies its constraints, an identity with a fresh id and
  an email is registered.
\<close>

theorem registration_creates_profile:
  "(register now NEW d = Inr d' \<longrightarrow>
      (\<exists>e. au_email NEW = Some e \<and>
           d' = d\<lparr>auth_users := auth_users d @ [NEW],
                  profiles := profiles d @ [new_profile now NEW e]\<rparr> \<and>
           filter (\<lambda>p. row_id p = au_id NEW) (profiles d') = [new_profile now NEW e])) \<and>
   row_id (new_profile now NEW e) = au_id NEW \<and>
   p_email (new_profile now NEW e) = e \<and>
   p_full_name (new_profile now NEW e) =
     Some (case map_of (raw_user_meta_data NEW) ''full_name'' of
             Some (Some v) \<Rightarrow> v | _ \<Rightarrow> '''') \<and>
   (handle_new_user now NEW (d\<lparr>auth_users := auth_users d @ [NEW]\<rparr>) = Inl err \<longrightarrow>
      register now NEW d = Inl err) \<and>
   (commit d = Inr d \<and> au_id NEW \<notin> set (map au_id (auth_users d)) \<and>
    au_email NEW = Some e \<longrightarrow>
      register now NEW d =
        Inr (d\<lparr>auth_users := auth_users d @ [NEW],
               profiles := profiles d @ [new_profile now NEW e]\<rparr>))"
  using register_Inr [of now NEW d d'] register_succeeds [of d NEW e now]
  by (simp add: new_profile_def meta_full_name_def register_def)

text \<open>
  The example of the specification: the identity with email \<open>a@x.com\<close> and full name
  \<open>A\<close> on the empty database; and an identity without an email, whose profile cannot
  be inserted.
\<close>

theorem registration_creates_profile_witness:
  "register 10 ada empty_db
     = Inr (empty_db\<lparr>auth_users := [ada], profiles := [new_profile 10 ada ''a@x.com'']\<rparr>) \<and>
   row_id (new_profile 10 ada ''a@x.com'') = au_id ada \<and>
   p_email (new_profile 10 ada ''a@x.com'') = ''a@x.com'' \<and>
   p_full_name (new_profile 10 ada ''a@x.com'') = Some ''A'' \<and>
   p_full_name (new_profile 11 bob ''b@x.com'') = Some '''' \<and>
   register 12 (bob\<lparr>au_email := None\<rparr>) empty_db = Inl Not_null_violation"
proof -
  have ok: "commit empty_db = Inr empty_db"
    by code_simp
  have fresh: "au_id ada \<notin> set (map au_id (auth_users empty_db))"
    by (simp add: empty_db_def)
  have mail: "au_email ada = Some ''a@x.com''"
    by (simp add: ada_def)
  have fails: "handle_new_user 12 (bob\<lparr>au_email := None\<rparr>)
      (empty_db\<lparr>auth_users := auth_users empty_db @ [bob\<lparr>au_email := None\<rparr>]\<rparr>)
    = Inl Not_null_violation"
    by (simp add: handle_new_user_def)
  have meta: "map_of (raw_user_meta_data ada) ''full_name'' = Some (Some ''A'')"
    "map_of (raw_user_meta_data bob) ''full_name'' = None"
    by (simp_all add: ada_def bob_def)
  note a = registration_creates_profile [where now = 10 and NEW = ada and d = empty_db
      and e = "''a@x.com''" and d' = empty_db and err = Not_null_violation]
  note b = registration_creates_profile [where now = 11 and NEW = bob and d = empty_db
      and e = "''b@x.com''" and d' = empty_db and err = Not_null_violation]
  note c = registration_creates_profile [where now = 12 and NEW = "bob\<lparr>au_email := None\<rparr>"
      and d = empty_db and e = "''b@x.com''" and d' = empty_db
      and err = Not_null_violation]
  from a ok fresh mail
  have "register 10 ada empty_db
     = Inr (empty_db\<lparr>auth_users := auth_users empty_db @ [ada],
              profiles := profiles empty_db @ [new_profile 10 ada ''a@x.com'']\<rparr>)"
    by blast
  then have one: "register 10 ada empty_db
     = Inr (empty_db\<lparr>auth_users := [ada], profiles := [new_profile 10 ada ''a@x.com'']\<rparr>)"
    by (simp add: empty_db_def)
  from a have id: "row_id (new_profile 10 ada ''a@x.com'') = au_id ada"
    and em: "p_email (new_profile 10 ada ''a@x.com'') = ''a@x.com''"
    and "p_full_name (new_profile 10 ada ''a@x.com'')
      = Some (case map_of (raw_user_meta_data ada) ''full_name'' of
                Some (Some v) \<Rightarrow> v | _ \<Rightarrow> '''')"
    by blast+
  then have fn: "p_full_name (new_profile 10 ada ''a@x.com'') = Some ''A''"
    by (simp add: meta)
  from b have "p_full_name (new_profile 11 bob ''b@x.com'')
      = Some (case map_of (raw_user_meta_data bob) ''full_name'' of
                Some (Some v) \<Rightarrow> v | _ \<Rightarrow> '''')"
    by blast
  then have fn': "p_full_name (new_profile 11 bob ''b@x.com'') = Some ''''"
    by (simp add: meta)
  from c fails
  have bad: "register 12 (bob\<lparr>au_email := None\<rparr>) empty_db = Inl Not_null_violation"
    by blast
  show ?thesis
    using one id em fn fn' bad by blast
qed

section \<open>One role row for a profile and a role\<close>

lemma commit_again: "commit x = Inr d' \<Longrightarrow> commit d' = Inr d'"
  by (frule commit_Inr) simp

lemma execute_consistent: "execute d c now s = Inr d' \<Longrightarrow> commit d' = Inr d'"
  by (cases s)
     (auto simp: insert_news_def update_news_def delete_news_def
        insert_staff_def update_staff_def delete_staff_def
        insert_activities_def update_activities_def delete_activities_def
        insert_user_roles_def update_user_roles_def delete_user_roles_def
        insert_profiles_def update_profiles_def delete_profiles_def
        delete_profiles_where_def Let_def
        split: sum.splits intro: commit_again)

lemma register_consistent: "register now NEW d = Inr d' \<Longrightarrow> commit d' = Inr d'"
  by (auto simp: register_def split: sum.splits intro: commit_again)

lemma owner_delete_consistent:
  "delete_profiles_as_owner d k = Inr d' \<Longrightarrow> commit d' = Inr d'"
  by (auto simp: delete_profiles_as_owner_def delete_profiles_where_def Let_def
        intro: commit_again)

lemma owner_consistent: "execute_as_owner d now s = Inr d' \<Longrightarrow> commit d' = Inr d'"
  by (cases s) (auto intro: commit_again owner_delete_consistent)

lemma reachable_consistent: "reachable d \<Longrightarrow> commit d = Inr d"
proof (induction rule: reachable.induct)
  case initial
  show ?case by code_simp
next
  case (by_statement d c now s d')
  then show ?case by (simp add: execute_consistent)
next
  case (by_registration d now NEW d')
  then show ?case by (simp add: register_consistent)
next
  case (by_owner d now s d')
  then show ?case by (simp add: owner_consistent)
qed

text \<open>
  The small database is reached: the two identities register, the owner gives identity 1
  the admin role, and identity 1, now an admin, inserts the news item as a caller. From
  there the admin gives identity 2 the admin role.
\<close>

lemma reachable_school_db: "reachable school_db"
proof -
  let ?s1 = "empty_db\<lparr>auth_users := [ada], profiles := [new_profile 10 ada ''a@x.com'']\<rparr>"
  let ?s2 = "empty_db\<lparr>auth_users := [ada, bob],
               profiles := [new_profile 10 ada ''a@x.com'', new_profile 11 bob ''b@x.com'']\<rparr>"
  let ?s3 = "?s2\<lparr>user_roles := [ada_admin]\<rparr>"
  have 1: "register 10 ada empty_db = Inr ?s1"
    by code_simp
  have 2: "register 11 bob ?s1 = Inr ?s2"
    by code_simp
  have 3: "execute_as_owner ?s2 20 (Insert_user_roles ada_admin) = Inr ?s3"
    by code_simp
  have 4: "execute ?s3 (Authenticated 1) 100 (Insert_news first_news) = Inr school_db"
    by code_simp
  have "reachable ?s1"
    using reachable.initial 1 by (rule reachable.by_registration)
  then have "reachable ?s2"
    using 2 by (rule reachable.by_registration)
  then have "reachable ?s3"
    using 3 by (rule reachable.by_owner)
  then show ?thesis
    using 4 by (rule reachable.by_statement)
qed

lemma reachable_two_admins: "reachable (school_db\<lparr>user_roles := [ada_admin, bob_admin]\<rparr>)"
proof -
  have "execute school_db (Authenticated 1) 30 (Insert_user_roles bob_admin)
      = Inr (school_db\<lparr>user_roles := [ada_admin, bob_admin]\<rparr>)"
    by code_simp
  with reachable_school_db show ?thesis
    by (rule reachable.by_statement)
qed

lemma distinct_map_filter_le1:
  "distinct (map f xs) \<Longrightarrow> length (filter (\<lambda>x. f x = v) xs) \<le> 1"
proof (induction xs)
  case Nil
  show ?case by simp
next
  case (Cons x xs)
  show ?case
  proof (cases "f x = v")
    case True
    from Cons.prems have "f x \<notin> f ` set xs"
      by simp
    with True have "\<forall>y\<in>set xs. f y \<noteq> v"
      by (metis imageI)
    then have "filter (\<lambda>y. f y = v) xs = []"
      by (simp add: filter_empty_conv)
    with True show ?thesis by simp
  next
    case False
    with Cons show ?thesis by simp
  qed
qed

lemma role_rows_pairs:
  "role_rows d p r = filter (\<lambda>x. (user_id x, role x) = (p, r)) (user_roles d)"
  by (simp add: role_rows_def)

lemma role_rows_le1: "user_roles_unique_ok d \<Longrightarrow> length (role_rows d p r) \<le> 1"
  unfolding role_rows_pairs user_roles_unique_ok_def
  by (rule distinct_map_filter_le1)

lemma creator_ok_same_profiles:
  "profiles x = profiles d \<Longrightarrow> creator_ok x = creator_ok d"
  by (auto simp: fun_eq_iff creator_ok_def is_profile_def split: option.splits)

lemma insert_user_roles_duplicate:
  assumes "has_role d (auth_uid c) admin" and "role_rows d (user_id NEW) (role NEW) \<noteq> []"
  shows "insert_user_roles d c NEW = Inl Unique_violation"
proof -
  from assms(2) obtain x where "x \<in> set (user_roles d)"
    and "user_id x = user_id NEW" and "role x = role NEW"
    by (auto simp: role_rows_def filter_empty_conv)
  then have "(user_id NEW, role NEW) \<in> set (map (\<lambda>r. (user_id r, role r)) (user_roles d))"
    by (auto simp: image_iff intro: bexI [of _ x])
  then have "\<not> user_roles_unique_ok (d\<lparr>user_roles := user_roles d @ [NEW]\<rparr>)"
    by (simp add: user_roles_unique_ok_def)
  then show ?thesis
    using assms(1) by (simp add: insert_user_roles_def stmts_of_admin commit_def)
qed

lemma insert_user_roles_succeeds:
  assumes ok: "commit d = Inr d" and adm: "has_role d (auth_uid c) admin"
    and none: "role_rows d (user_id NEW) (role NEW) = []"
    and prof: "is_profile d (user_id NEW)"
    and fresh: "row_id NEW \<notin> set (map row_id (user_roles d))"
  shows "insert_user_roles d c NEW = Inr (d\<lparr>user_roles := user_roles d @ [NEW]\<rparr>)"
proof -
  let ?x = "d\<lparr>user_roles := user_roles d @ [NEW]\<rparr>"
  from ok have pk: "primary_keys_ok d" and un: "user_roles_unique_ok d"
    and re: "references_ok d"
    by (simp_all add: commit_Inr_iff)
  from none have "(user_id NEW, role NEW) \<notin> set (map (\<lambda>r. (user_id r, role r)) (user_roles d))"
    by (auto simp: role_rows_def filter_empty_conv)
  with un have un': "user_roles_unique_ok ?x"
    by (simp add: user_roles_unique_ok_def)
  from pk fresh have pk': "primary_keys_ok ?x"
    by (simp add: primary_keys_ok_def)
  from re prof have re': "references_ok ?x"
    by (simp add: references_ok_def is_profile_def creator_ok_same_profiles [of ?x d])
  from pk' un' re' have "commit ?x = Inr ?x"
    by (simp add: commit_Inr_iff)
  then show ?thesis
    using adm by (simp add: insert_user_roles_def stmts_of_admin)
qed

text \<open>
  Claim C5. In every state that the database reaches, by statements of callers, by
  registrations and by statements of the owner (inserts, updates and deletes on every
  table), there is at most one role row for a profile and a role. An admin who inserts a row for a pair that already has one gets a
  uniqueness violation; on a database that satisfies its constraints, an admin who inserts
  a row with a fresh id for a profile and a role that the profile does not hold yet
  succeeds, and the row is added.
\<close>

theorem user_roles_pair_unique:
  "(reachable d \<longrightarrow> length (role_rows d p r) \<le> 1) \<and>
   (has_role d (auth_uid c) admin \<and> role_rows d (user_id NEW) (role NEW) \<noteq> [] \<longrightarrow>
      insert_user_roles d c NEW = Inl Unique_violation) \<and>
   (commit d = Inr d \<and> has_role d (auth_uid c) admin \<and>
    role_rows d (user_id NEW) (role NEW) = [] \<and> is_profile d (user_id NEW) \<and>
    row_id NEW \<notin> set (map row_id (user_roles d)) \<longrightarrow>
      insert_user_roles d c NEW = Inr (d\<lparr>user_roles := user_roles d @ [NEW]\<rparr>))"
  using reachable_consistent [of d] role_rows_le1 [of d p r]
    insert_user_roles_duplicate [of d c NEW] insert_user_roles_succeeds [of d c NEW]
  by (simp add: commit_Inr_iff)

text \<open>
  The scenario of the specification: the admin gives identity 2 the admin role; a second
  row for the same pair is rejected; a row for the same profile with the role \<open>user\<close>
  is accepted. The state with the two admins is reached, and holds one row for the pair.
\<close>

theorem user_roles_pair_unique_witness:
  "insert_user_roles school_db (Authenticated 1) bob_admin
     = Inr (school_db\<lparr>user_roles := [ada_admin, bob_admin]\<rparr>) \<and>
   insert_user_roles (school_db\<lparr>user_roles := [ada_admin, bob_admin]\<rparr>) (Authenticated 1)
       (bob_admin\<lparr>row_id := 12\<rparr>)
     = Inl Unique_violation \<and>
   insert_user_roles (school_db\<lparr>user_roles := [ada_admin, bob_admin]\<rparr>) (Authenticated 1)
       (bob_admin\<lparr>row_id := 13, role := user\<rparr>)
     = Inr (school_db\<lparr>user_roles :=
              [ada_admin, bob_admin, bob_admin\<lparr>row_id := 13, role := user\<rparr>]\<rparr>) \<and>
   reachable (school_db\<lparr>user_roles := [ada_admin, bob_admin]\<rparr>) \<and>
   role_rows (school_db\<lparr>user_roles := [ada_admin, bob_admin]\<rparr>) 2 admin = [bob_admin] \<and>
   length (role_rows (school_db\<lparr>user_roles := [ada_admin, bob_admin]\<rparr>) 2 admin) \<le> 1"
proof -
  let ?d1 = "school_db\<lparr>user_roles := [ada_admin, bob_admin]\<rparr>"
  have ok: "commit school_db = Inr school_db" "commit ?d1 = Inr ?d1"
    by code_simp+
  have adm: "has_role school_db (auth_uid (Authenticated 1)) admin"
    "has_role ?d1 (auth_uid (Authenticated 1)) admin"
    by code_simp+
  have first: "role_rows school_db (user_id bob_admin) (role bob_admin) = []"
    "is_profile school_db (user_id bob_admin)"
    "row_id bob_admin \<notin> set (map row_id (user_roles school_db))"
    by code_simp+
  have second: "role_rows ?d1 (user_id (bob_admin\<lparr>row_id := 12\<rparr>))
      (role (bob_admin\<lparr>row_id := 12\<rparr>)) \<noteq> []"
    by code_simp
  have third: "role_rows ?d1 (user_id (bob_admin\<lparr>row_id := 13, role := user\<rparr>))
      (role (bob_admin\<lparr>row_id := 13, role := user\<rparr>)) = []"
    "is_profile ?d1 (user_id (bob_admin\<lparr>row_id := 13, role := user\<rparr>))"
    "row_id (bob_admin\<lparr>row_id := 13, role := user\<rparr>) \<notin> set (map row_id (user_roles ?d1))"
    by code_simp+
  note a = user_roles_pair_unique [where d = school_db and c = "Authenticated 1"
      and NEW = bob_admin and p = 2 and r = admin]
  note b = user_roles_pair_unique [where d = ?d1 and c = "Authenticated 1"
      and NEW = "bob_admin\<lparr>row_id := 12\<rparr>" and p = 2 and r = admin]
  note c = user_roles_pair_unique [where d = ?d1 and c = "Authenticated 1"
      and NEW = "bob_admin\<lparr>row_id := 13, role := user\<rparr>" and p = 2 and r = admin]
  from a ok adm first
  have "insert_user_roles school_db (Authenticated 1) bob_admin
     = Inr (school_db\<lparr>user_roles := user_roles school_db @ [bob_admin]\<rparr>)"
    by blast
  then have one: "insert_user_roles school_db (Authenticated 1) bob_admin = Inr ?d1"
    by (simp add: school_db_def)
  from b adm second
  have two: "insert_user_roles ?d1 (Authenticated 1) (bob_admin\<lparr>row_id := 12\<rparr>)
     = Inl Unique_violation"
    by blast
  from c ok adm third
  have "insert_user_roles ?d1 (Authenticated 1) (bob_admin\<lparr>row_id := 13, role := user\<rparr>)
     = Inr (?d1\<lparr>user_roles := user_roles ?d1
                @ [bob_admin\<lparr>row_id := 13, role := user\<rparr>]\<rparr>)"
    by blast
  then have three: "insert_user_roles ?d1 (Authenticated 1)
       (bob_admin\<lparr>row_id := 13, role := user\<rparr>)
     = Inr (school_db\<lparr>user_roles :=
              [ada_admin, bob_admin, bob_admin\<lparr>row_id := 13, role := user\<rparr>]\<rparr>)"
    by simp
  have rows: "role_rows ?d1 2 admin = [bob_admin]"
    by code_simp
  from b reachable_two_admins have four: "length (role_rows ?d1 2 admin) \<le> 1"
    by blast
  show ?thesis
    using one two three reachable_two_admins rows four by blast
qed

section \<open>Deleting a profile\<close>

lemma owner_delete_Inr:
  assumes "delete_profiles_as_owner d k = Inr d'"
  shows "d' = d\<lparr>profiles := filter (\<lambda>p. row_id p \<noteq> k) (profiles d),
                 user_roles := filter (\<lambda>r. user_id r \<noteq> k) (user_roles d)\<rparr> \<and>
         list_all (\<lambda>n. created_by n \<noteq> Some k) (news d) \<and>
         list_all (\<lambda>n. created_by n \<noteq> Some k) (staff d) \<and>
         list_all (\<lambda>n. created_by n \<noteq> Some k) (activities d)"
proof -
  let ?gone = "map row_id (filter (\<lambda>r. row_id r = k) (profiles d))"
  let ?x = "d\<lparr>profiles := filter (\<lambda>r. \<not> row_id r = k) (profiles d),
              user_roles := filter (\<lambda>r. user_id r \<notin> set ?gone) (user_roles d)\<rparr>"
  from assms have c: "commit ?x = Inr d'"
    by (simp add: delete_profiles_as_owner_def delete_profiles_where_def Let_def)
  then have d': "d' = ?x"
    by (rule commit_Inr)
  from c have re: "references_ok ?x"
    by (auto dest: commit_ok)
  have nk: "\<not> is_profile ?x k"
    by (auto simp: is_profile_def)
  from re have "\<forall>r\<in>set (user_roles ?x). is_profile ?x (user_id r)"
    by (simp add: references_ok_def list_all_iff)
  with nk have "\<forall>r\<in>set (user_roles ?x). user_id r \<noteq> k"
    by auto
  then have "filter (\<lambda>r. user_id r \<notin> set ?gone) (user_roles d)
      = filter (\<lambda>r. user_id r \<noteq> k) (user_roles d)"
    by (auto intro!: filter_cong)
  with d' have eq: "d' = d\<lparr>profiles := filter (\<lambda>p. row_id p \<noteq> k) (profiles d),
                 user_roles := filter (\<lambda>r. user_id r \<noteq> k) (user_roles d)\<rparr>"
    by simp
  from re nk have "list_all (\<lambda>n. created_by n \<noteq> Some k) (news d)"
    and "list_all (\<lambda>n. created_by n \<noteq> Some k) (staff d)"
    and "list_all (\<lambda>n. created_by n \<noteq> Some k) (activities d)"
    by (auto simp: references_ok_def list_all_iff creator_ok_def split: option.splits)
  with eq show ?thesis by simp
qed

lemma creator_gone:
  "\<not> is_profile x k \<Longrightarrow> list_ex (\<lambda>n. created_by n = Some k) rows \<Longrightarrow>
   \<not> list_all (creator_ok x) rows"
  by (force simp: list_all_iff list_ex_iff creator_ok_def)

lemma owner_delete_referenced:
  assumes ok: "commit d = Inr d"
    and ref: "list_ex (\<lambda>n. created_by n = Some k) (news d) \<or>
              list_ex (\<lambda>n. created_by n = Some k) (staff d) \<or>
              list_ex (\<lambda>n. created_by n = Some k) (activities d)"
  shows "delete_profiles_as_owner d k = Inl Foreign_key_violation"
proof -
  let ?gone = "map row_id (filter (\<lambda>r. row_id r = k) (profiles d))"
  let ?x = "d\<lparr>profiles := filter (\<lambda>r. \<not> row_id r = k) (profiles d),
              user_roles := filter (\<lambda>r. user_id r \<notin> set ?gone) (user_roles d)\<rparr>"
  from ok have pk: "primary_keys_ok d" and un: "user_roles_unique_ok d"
    by (simp_all add: commit_Inr_iff)
  have pk': "primary_keys_ok ?x"
    using pk by (simp add: primary_keys_ok_def distinct_map_filter)
  have un': "user_roles_unique_ok ?x"
    using un by (simp add: user_roles_unique_ok_def distinct_map_filter)
  have nk: "\<not> is_profile ?x k"
    by (auto simp: is_profile_def)
  from ref have "\<not> (list_all (creator_ok ?x) (news d) \<and>
      list_all (creator_ok ?x) (staff d) \<and> list_all (creator_ok ?x) (activities d))"
    using creator_gone [OF nk, of "news d"] creator_gone [OF nk, of "staff d"]
      creator_gone [OF nk, of "activities d"]
    by blast
  then have "\<not> references_ok ?x"
    by (simp add: references_ok_def)
  with pk' un' have "commit ?x = Inl Foreign_key_violation"
    by (simp add: commit_def)
  then show ?thesis
    by (simp add: delete_profiles_as_owner_def delete_profiles_where_def Let_def)
qed

text \<open>
  Claim C6, as amended. A deletion of the profile with key \<open>k\<close> that succeeds removes
  the profile and every role row that references it, and changes no other row of any
  table; it succeeds only when no news, staff or activities row names \<open>k\<close> as its
  creator. On a database that satisfies its constraints, the deletion of a profile that
  a news, staff or activities row names as its creator is rejected with a foreign-key
  violation, and nothing is deleted: \<open>created_by\<close> never becomes dangling or \<open>NULL\<close>
  through a deletion.
\<close>

theorem profile_delete_cascade:
  "(delete_profiles_as_owner d k = Inr d' \<longrightarrow>
      d' = d\<lparr>profiles := filter (\<lambda>p. row_id p \<noteq> k) (profiles d),
             user_roles := filter (\<lambda>r. user_id r \<noteq> k) (user_roles d)\<rparr> \<and>
      list_all (\<lambda>n. created_by n \<noteq> Some k) (news d) \<and>
      list_all (\<lambda>n. created_by n \<noteq> Some k) (staff d) \<and>
      list_all (\<lambda>n. created_by n \<noteq> Some k) (activities d)) \<and>
   (commit d = Inr d \<and>
    (list_ex (\<lambda>n. created_by n = Some k) (news d) \<or>
     list_ex (\<lambda>n. created_by n = Some k) (staff d) \<or>
     list_ex (\<lambda>n. created_by n = Some k) (activities d)) \<longrightarrow>
      delete_profiles_as_owner d k = Inl Foreign_key_violation)"
  using owner_delete_Inr [of d k d'] owner_delete_referenced [of d k]
  by blast

text \<open>
  Identity 2 holds a role and created nothing: its profile and its role row go, the news
  item stays. Identity 1 created the news item: its profile cannot be deleted.
\<close>

theorem profile_delete_cascade_witness:
  "delete_profiles_as_owner (school_db\<lparr>user_roles := [ada_admin, bob_admin]\<rparr>) 2
     = Inr (school_db\<lparr>profiles := [new_profile 10 ada ''a@x.com''],
              user_roles := [ada_admin]\<rparr>) \<and>
   list_all (\<lambda>n. created_by n \<noteq> Some 2)
     (news (school_db\<lparr>user_roles := [ada_admin, bob_admin]\<rparr>)) \<and>
   delete_profiles_as_owner school_db 1 = Inl Foreign_key_violation"
proof -
  let ?d1 = "school_db\<lparr>user_roles := [ada_admin, bob_admin]\<rparr>"
  let ?d2 = "school_db\<lparr>profiles := [new_profile 10 ada ''a@x.com''],
               user_roles := [ada_admin]\<rparr>"
  have run: "delete_profiles_as_owner ?d1 2 = Inr ?d2"
    by code_simp
  have ok: "commit school_db = Inr school_db"
    by code_simp
  have ref: "list_ex (\<lambda>n. created_by n = Some 1) (news school_db)"
    by code_simp
  from profile_delete_cascade [where d = ?d1 and k = 2 and d' = ?d2] run
  have kept: "list_all (\<lambda>n. created_by n \<noteq> Some 2) (news ?d1)"
    by blast
  from profile_delete_cascade [where d = school_db and k = 1 and d' = ?d2] ok ref
  have no: "delete_profiles_as_owner school_db 1 = Inl Foreign_key_violation"
    by blast
  show ?thesis
    using run kept no by blast
qed

text \<open>
  Claim C6 as stated fails: identity 1 has a role row and created the news item, and the
  deletion of its profile is rejected, so neither the role row is removed nor the
  reference of the news item changed.
\<close>

theorem delete_of_creator_is_rejected:
  "list_ex (\<lambda>r. user_id r = 1) (user_roles school_db) \<and>
   created_by first_news = Some 1 \<and> news school_db = [first_news] \<and>
   delete_profiles_as_owner school_db 1 = Inl Foreign_key_violation"
  by code_simp

section \<open>The lists of the admin panels\<close>

lemma desc_before_refl: "desc_before a a"
  by (cases a) simp_all

lemma desc_before_total: "desc_before a b \<or> desc_before b a"
  by (cases a; cases b) auto

lemma desc_before_trans: "desc_before a b \<Longrightarrow> desc_before b c \<Longrightarrow> desc_before a c"
  by (cases a; cases b; cases c) auto

lemma mset_insert_desc: "mset (insert_desc key r xs) = add_mset r (mset xs)"
  by (induction xs) simp_all

lemma set_insert_desc: "set (insert_desc key r xs) = insert r (set xs)"
  by (induction xs) auto

lemma sorted_insert_desc:
  "sorted_wrt (\<lambda>a b. desc_before (key a) (key b)) xs \<Longrightarrow>
   sorted_wrt (\<lambda>a b. desc_before (key a) (key b)) (insert_desc key r xs)"
proof (induction xs)
  case Nil
  show ?case by simp
next
  case (Cons x xs)
  show ?case
  proof (cases "desc_before (key r) (key x)")
    case True
    with Cons.prems show ?thesis
      by (auto intro: desc_before_trans)
  next
    case False
    with desc_before_total [of "key r" "key x"] have "desc_before (key x) (key r)"
      by simp
    with False Cons show ?thesis
      by (auto simp: set_insert_desc)
  qed
qed

lemma mset_order_desc: "mset (order_desc key rows) = mset rows"
  by (induction rows) (simp_all add: order_desc_def mset_insert_desc)

lemma sorted_order_desc:
  "sorted_wrt (\<lambda>a b. desc_before (key a) (key b)) (order_desc key rows)"
proof (induction rows)
  case Nil
  show ?case by (simp add: order_desc_def)
next
  case (Cons r rows)
  then show ?case
    using sorted_insert_desc [of key "order_desc key rows" r]
    by (simp add: order_desc_def)
qed

lemma adjacent_order_desc:
  "Suc i < length (order_desc key rows) \<Longrightarrow>
   desc_before (key (order_desc key rows ! i)) (key (order_desc key rows ! Suc i))"
  using sorted_order_desc [of key rows]
  by (simp add: sorted_wrt_iff_nth_less)

lemma select_all_content:
  "t = News \<or> t = Staff \<or> t = Activities \<Longrightarrow> select_stmt d c t rows = rows"
  by (simp add: select_stmt_def rls_using_content)

text \<open>
  Claim C9. Each fetch stores the rows of its table (every row is readable by every
  caller) in descending order of a fixed key: the news by \<open>published_date\<close>, the
  activities by \<open>activity_date\<close>, the staff by \<open>created_at\<close>. Every pair of rows of
  the list, and so every adjacent pair, is in that order; a row whose key is \<open>NULL\<close>,
  which the two nullable keys allow, comes before the rows that have one.
\<close>

theorem admin_lists_newest_first:
  "itemList (fetchNews d c s) = select_news d c \<and>
   mset (select_news d c) = mset (news d) \<and>
   sorted_wrt (\<lambda>a b. desc_before (published_date a) (published_date b)) (select_news d c) \<and>
   (Suc i < length (select_news d c) \<longrightarrow>
      desc_before (published_date (select_news d c ! i))
        (published_date (select_news d c ! Suc i))) \<and>
   itemList (fetchActivities d c sa) = select_activities d c \<and>
   mset (select_activities d c) = mset (activities d) \<and>
   sorted_wrt (\<lambda>a b. activity_date b \<le> activity_date a) (select_activities d c) \<and>
   (Suc i < length (select_activities d c) \<longrightarrow>
      activity_date (select_activities d c ! Suc i) \<le> activity_date (select_activities d c ! i)) \<and>
   itemList (fetchStaff d c ss) = select_staff d c \<and>
   mset (select_staff d c) = mset (staff d) \<and>
   sorted_wrt (\<lambda>a b. desc_before (created_at a) (created_at b)) (select_staff d c) \<and>
   (Suc i < length (select_staff d c) \<longrightarrow>
      desc_before (created_at (select_staff d c ! i)) (created_at (select_staff d c ! Suc i)))"
proof -
  have n: "select_news d c = order_desc published_date (news d)"
    and a: "select_activities d c = order_desc (\<lambda>r. Some (activity_date r)) (activities d)"
    and st: "select_staff d c = order_desc created_at (staff d)"
    by (simp_all add: select_news_def select_activities_def select_staff_def
          select_all_content)
  have fetch: "itemList (fetchNews d c s) = select_news d c"
    "itemList (fetchActivities d c sa) = select_activities d c"
    "itemList (fetchStaff d c ss) = select_staff d c"
    by (simp_all add: fetchNews_def fetchActivities_def fetchStaff_def fetched_def)
  have sa: "sorted_wrt (\<lambda>a b. activity_date b \<le> activity_date a) (select_activities d c)"
    using sorted_order_desc [of "\<lambda>r. Some (activity_date r)" "activities d"]
    by (simp add: a)
  have aa: "Suc i < length (select_activities d c) \<longrightarrow>
      activity_date (select_activities d c ! Suc i) \<le> activity_date (select_activities d c ! i)"
    using adjacent_order_desc [of i "\<lambda>r. Some (activity_date r)" "activities d"]
    by (simp add: a)
  show ?thesis
    using fetch sa aa
    by (simp add: n st mset_order_desc sorted_order_desc adjacent_order_desc a)
qed

text \<open>Two news items, stored oldest first, are listed newest first.\<close>

theorem admin_lists_newest_first_witness:
  "select_news (school_db\<lparr>news := [first_news, later_news]\<rparr>) Anon = [later_news, first_news] \<and>
   desc_before
     (published_date (select_news (school_db\<lparr>news := [first_news, later_news]\<rparr>) Anon ! 0))
     (published_date (select_news (school_db\<lparr>news := [first_news, later_news]\<rparr>) Anon ! Suc 0))"
proof -
  let ?d = "school_db\<lparr>news := [first_news, later_news]\<rparr>"
  have run: "select_news ?d Anon = [later_news, first_news]"
    by code_simp
  then have len: "Suc 0 < length (select_news ?d Anon)"
    by simp
  from admin_lists_newest_first [where d = ?d and c = Anon and i = 0] len
  have "desc_before (published_date (select_news ?d Anon ! 0))
     (published_date (select_news ?d Anon ! Suc 0))"
    by blast
  with run show ?thesis
    by blast
qed

section \<open>The forms of the admin panels\<close>

lemma fetched_form:
  "editingId (fetched response s) = editingId s \<and> formData (fetched response s) = formData s \<and>
   toasts (fetched (Inr rows) s) = toasts s \<and> itemList (fetched (Inr rows) s) = rows \<and>
   loading (fetched response s) = False"
  by (cases response) (simp_all add: fetched_def)

lemma submitted_Inr:
  "submitted empty_form (\<lambda>x. fetched (Inr (sel x))) (Inr d') (d, s) =
     (d', s\<lparr>itemList := sel d', loading := False, editingId := None, formData := empty_form,
            toasts := toasts s @ [Toast_success]\<rparr>)"
  by (simp add: submitted_def fetched_def)

lemma submitted_Inl:
  "submitted empty_form fetch (Inl e) (d, s) = (d, s\<lparr>toasts := toasts s @ [Toast_error]\<rparr>)"
  by (simp add: submitted_def)

lemma fetches:
  "(\<lambda>x. fetchNews x c) = (\<lambda>x. fetched (Inr (select_news x c)))"
  "(\<lambda>x. fetchStaff x c) = (\<lambda>x. fetched (Inr (select_staff x c)))"
  "(\<lambda>x. fetchActivities x c) = (\<lambda>x. fetched (Inr (select_activities x c)))"
  by (simp_all add: fun_eq_iff fetchNews_def fetchStaff_def fetchActivities_def)

lemma or_empty_case: "or_empty v = (case v of None \<Rightarrow> '''' | Some u \<Rightarrow> u)"
  by (cases v) simp_all

text \<open>
  Claim C8. In each panel, choosing edit sets \<open>editingId\<close> to the id of the record and
  fills the one form from the record: each field with the current value of its column, the
  empty text for an optional column that is \<open>NULL\<close>, and the date of an activity as the
  first sixteen characters of its ISO text, the form of a \<^verbatim>\<open>datetime-local\<close> input.
  Cancel sets every field of the form to the empty text and \<open>editingId\<close> to \<open>null\<close>,
  and so does a submit whose statement (the insert, or the update when a record is being
  edited) returns without an error.
\<close>

theorem form_prefill_and_reset:
  "handleEdit_news n s =
     s\<lparr>editingId := Some (row_id n),
       formData := \<lparr>nf_title = n_title n, nf_content = n_content n,
                     nf_image_url = (case n_image_url n of None \<Rightarrow> '''' | Some u \<Rightarrow> u)\<rparr>\<rparr> \<and>
   handleEdit_staff m ss =
     ss\<lparr>editingId := Some (row_id m),
        formData := \<lparr>sf_full_name = s_full_name m, sf_position = s_position m,
          sf_department = (case department m of None \<Rightarrow> '''' | Some u \<Rightarrow> u),
          sf_email = (case s_email m of None \<Rightarrow> '''' | Some u \<Rightarrow> u),
          sf_phone = (case phone m of None \<Rightarrow> '''' | Some u \<Rightarrow> u),
          sf_image_url = (case s_image_url m of None \<Rightarrow> '''' | Some u \<Rightarrow> u),
          sf_bio = (case bio m of None \<Rightarrow> '''' | Some u \<Rightarrow> u)\<rparr>\<rparr> \<and>
   handleEdit_activities toISOString a sa =
     sa\<lparr>editingId := Some (row_id a),
        formData := \<lparr>af_title = a_title a, af_description = description a,
          af_activity_date = take 16 (toISOString (activity_date a)),
          af_location = (case location a of None \<Rightarrow> '''' | Some u \<Rightarrow> u),
          af_image_url = (case a_image_url a of None \<Rightarrow> '''' | Some u \<Rightarrow> u)\<rparr>\<rparr> \<and>
   handleCancel_news s =
     s\<lparr>editingId := None,
       formData := \<lparr>nf_title = '''', nf_content = '''', nf_image_url = ''''\<rparr>\<rparr> \<and>
   handleCancel_staff ss =
     ss\<lparr>editingId := None,
        formData := \<lparr>sf_full_name = '''', sf_position = '''', sf_department = '''',
          sf_email = '''', sf_phone = '''', sf_image_url = '''', sf_bio = ''''\<rparr>\<rparr> \<and>
   handleCancel_activities sa =
     sa\<lparr>editingId := None,
        formData := \<lparr>af_title = '''', af_description = '''', af_activity_date = '''',
          af_location = '''', af_image_url = ''''\<rparr>\<rparr> \<and>
   (submit_news c now gen (d, s) = Inr d' \<longrightarrow>
      handleSubmit_news c now gen (d, s) =
        (d', s\<lparr>itemList := select_news d' c, loading := False, editingId := None,
               formData := \<lparr>nf_title = '''', nf_content = '''', nf_image_url = ''''\<rparr>,
               toasts := toasts s @ [Toast_success]\<rparr>)) \<and>
   (submit_staff c now gen (d, ss) = Inr d' \<longrightarrow>
      handleSubmit_staff c now gen (d, ss) =
        (d', ss\<lparr>itemList := select_staff d' c, loading := False, editingId := None,
                formData := \<lparr>sf_full_name = '''', sf_position = '''', sf_department = '''',
                  sf_email = '''', sf_phone = '''', sf_image_url = '''', sf_bio = ''''\<rparr>,
                toasts := toasts ss @ [Toast_success]\<rparr>)) \<and>
   (submit_activities timestamptz_in c now gen (d, sa) = Inr d' \<longrightarrow>
      handleSubmit_activities timestamptz_in c now gen (d, sa) =
        (d', sa\<lparr>itemList := select_activities d' c, loading := False, editingId := None,
                formData := \<lparr>af_title = '''', af_description = '''', af_activity_date = '''',
                  af_location = '''', af_image_url = ''''\<rparr>,
                toasts := toasts sa @ [Toast_success]\<rparr>))"
  by (simp add: handleEdit_news_def handleEdit_staff_def handleEdit_activities_def
        handleCancel_news_def handleCancel_staff_def handleCancel_activities_def
        handleSubmit_news_def handleSubmit_staff_def handleSubmit_activities_def
        empty_news_form_def empty_staff_form_def empty_activities_form_def
        or_empty_case fetches submitted_Inr)

text \<open>
  The admin submits the form for a new news item: the item is stored, the form is empty
  again, and the list shows the new item first.
\<close>

theorem form_prefill_and_reset_witness:
  "submit_news (Authenticated 1) 300 101 (school_db, start_state)
     = Inr (school_db\<lparr>news := [first_news, later_news]\<rparr>) \<and>
   handleSubmit_news (Authenticated 1) 300 101 (school_db, start_state)
     = (school_db\<lparr>news := [first_news, later_news]\<rparr>,
        start_state\<lparr>itemList := [later_news, first_news], loading := False,
          editingId := None,
          formData := \<lparr>nf_title = '''', nf_content = '''', nf_image_url = ''''\<rparr>,
          toasts := [Toast_success]\<rparr>)"
proof -
  let ?d = "school_db\<lparr>news := [first_news, later_news]\<rparr>"
  have run: "submit_news (Authenticated 1) 300 101 (school_db, start_state) = Inr ?d"
    by code_simp
  have sel: "select_news ?d (Authenticated 1) = [later_news, first_news]"
    by code_simp
  have ts: "toasts start_state = []"
    by (simp add: start_state_def)
  from form_prefill_and_reset [where c = "Authenticated 1" and now = 300 and gen = 101
      and d = school_db and s = start_state and d' = ?d] run
  have "handleSubmit_news (Authenticated 1) 300 101 (school_db, start_state) =
        (?d, start_state\<lparr>itemList := select_news ?d (Authenticated 1), loading := False,
               editingId := None,
               formData := \<lparr>nf_title = '''', nf_content = '''', nf_image_url = ''''\<rparr>,
               toasts := toasts start_state @ [Toast_success]\<rparr>)"
    by blast
  then show ?thesis
    using run by (simp add: sel [unfolded One_nat_def] ts)
qed

lemma insert_stmt_rows:
  "insert_stmt d c t NEW rows = Inr rows' \<Longrightarrow> rows' = rows @ [NEW]"
  by (simp add: insert_stmt_def split: if_splits)

lemma update_stmt_written:
  "update_stmt d c t k f rows = Inr rows' \<Longrightarrow> r \<in> set rows' \<Longrightarrow>
   r \<in> set rows \<or> (\<exists>x\<in>set rows. r = f x)"
  by (auto dest!: update_stmt_rows split: if_splits)

lemma insert_news_rows:
  "insert_news d c NEW = Inr d' \<Longrightarrow> news d' = news d @ [NEW]"
  by (auto simp: insert_news_def split: sum.splits dest!: commit_Inr insert_stmt_rows)

lemma insert_staff_rows:
  "insert_staff d c NEW = Inr d' \<Longrightarrow> staff d' = staff d @ [NEW]"
  by (auto simp: insert_staff_def split: sum.splits dest!: commit_Inr insert_stmt_rows)

lemma insert_activities_rows:
  "insert_activities d c NEW = Inr d' \<Longrightarrow> activities d' = activities d @ [NEW]"
  by (auto simp: insert_activities_def split: sum.splits dest!: commit_Inr insert_stmt_rows)

lemma fst_submitted:
  "fst (submitted empty_form fetch response (d, s)) =
     (case response of Inl e \<Rightarrow> d | Inr d' \<Rightarrow> d')"
  by (cases response) (simp_all add: submitted_def)

lemma submit_news_written:
  assumes "submit_news c now gen (d, s) = Inr d'" and "r \<in> set (news d')"
  shows "r \<in> set (news d) \<or> n_image_url r = Some (nf_image_url (formData s))"
proof (cases "editingId s")
  case None
  with assms(1) have "news d' = news d @ [news_new_row now gen (formData s)]"
    by (simp add: submit_news_def insert_news_rows)
  with assms(2) show ?thesis
    by (auto simp: news_new_row_def)
next
  case (Some k)
  with assms(1) have "update_news d c now k (news_set_clause (formData s)) = Inr d'"
    by (simp add: submit_news_def)
  from update_stmt_written [OF update_news_rows [OF this] assms(2)] show ?thesis
    by (auto simp: handle_updated_at_def news_set_clause_def)
qed

lemma submit_staff_written:
  assumes "submit_staff c now gen (d, s) = Inr d'" and "r \<in> set (staff d')"
  shows "r \<in> set (staff d) \<or>
         (department r = Some (sf_department (formData s)) \<and>
          s_email r = Some (sf_email (formData s)) \<and>
          phone r = Some (sf_phone (formData s)) \<and>
          s_image_url r = Some (sf_image_url (formData s)) \<and>
          bio r = Some (sf_bio (formData s)))"
proof (cases "editingId s")
  case None
  with assms(1) have "staff d' = staff d @ [staff_new_row now gen (formData s)]"
    by (simp add: submit_staff_def insert_staff_rows)
  with assms(2) show ?thesis
    by (auto simp: staff_new_row_def)
next
  case (Some k)
  with assms(1) have "update_staff d c now k (staff_set_clause (formData s)) = Inr d'"
    by (simp add: submit_staff_def)
  from update_stmt_written [OF update_staff_rows [OF this] assms(2)] show ?thesis
    by (auto simp: handle_updated_at_def staff_set_clause_def)
qed

lemma submit_activities_written:
  assumes "submit_activities timestamptz_in c now gen (d, s) = Inr d'"
    and "r \<in> set (activities d')"
  shows "r \<in> set (activities d) \<or>
         (location r = Some (af_location (formData s)) \<and>
          a_image_url r = Some (af_image_url (formData s)))"
proof -
  from assms(1) obtain date where date: "timestamptz_in (af_activity_date (formData s)) = Some date"
    by (cases "timestamptz_in (af_activity_date (formData s))")
       (simp_all add: submit_activities_def)
  show ?thesis
  proof (cases "editingId s")
    case None
    with assms(1) date
    have "activities d' = activities d @ [activities_new_row now gen (formData s) date]"
      by (simp add: submit_activities_def insert_activities_rows)
    with assms(2) show ?thesis
      by (auto simp: activities_new_row_def)
  next
    case (Some k)
    with assms(1) date
    have "update_activities d c now k (activities_set_clause (formData s) date) = Inr d'"
      by (simp add: submit_activities_def)
    from update_stmt_written [OF update_activities_rows [OF this] assms(2)] show ?thesis
      by (auto simp: handle_updated_at_def activities_set_clause_def)
  qed
qed

text \<open>
  Claim C10. The form fields are texts, and a submit sends each of them as it is. So every
  row of a table after a submit of its panel is a row that was there before, or it carries
  in each optional column of the form (image URL, location, department, email, phone, bio)
  the text of the field: the empty text for a field left blank, never \<open>NULL\<close>.
\<close>

theorem forms_write_texts_not_null:
  "(\<forall>r\<in>set (news (fst (handleSubmit_news c now gen (d, s)))).
      r \<in> set (news d) \<or> n_image_url r = Some (nf_image_url (formData s))) \<and>
   (\<forall>r\<in>set (staff (fst (handleSubmit_staff c now gen (d, ss)))).
      r \<in> set (staff d) \<or>
      (department r = Some (sf_department (formData ss)) \<and>
       s_email r = Some (sf_email (formData ss)) \<and>
       phone r = Some (sf_phone (formData ss)) \<and>
       s_image_url r = Some (sf_image_url (formData ss)) \<and>
       bio r = Some (sf_bio (formData ss)))) \<and>
   (\<forall>r\<in>set (activities (fst (handleSubmit_activities timestamptz_in c now gen (d, sa)))).
      r \<in> set (activities d) \<or>
      (location r = Some (af_location (formData sa)) \<and>
       a_image_url r = Some (af_image_url (formData sa))))"
proof (intro conjI ballI)
  fix r
  assume "r \<in> set (news (fst (handleSubmit_news c now gen (d, s))))"
  then show "r \<in> set (news d) \<or> n_image_url r = Some (nf_image_url (formData s))"
    by (cases "submit_news c now gen (d, s)")
       (auto simp: handleSubmit_news_def fst_submitted dest: submit_news_written)
next
  fix r
  assume "r \<in> set (staff (fst (handleSubmit_staff c now gen (d, ss))))"
  then show "r \<in> set (staff d) \<or>
      (department r = Some (sf_department (formData ss)) \<and>
       s_email r = Some (sf_email (formData ss)) \<and>
       phone r = Some (sf_phone (formData ss)) \<and>
       s_image_url r = Some (sf_image_url (formData ss)) \<and>
       bio r = Some (sf_bio (formData ss)))"
    by (cases "submit_staff c now gen (d, ss)")
       (auto simp: handleSubmit_staff_def fst_submitted dest: submit_staff_written)
next
  fix r
  assume "r \<in> set (activities (fst (handleSubmit_activities timestamptz_in c now gen (d, sa))))"
  then show "r \<in> set (activities d) \<or>
      (location r = Some (af_location (formData sa)) \<and>
       a_image_url r = Some (af_image_url (formData sa)))"
    by (cases "submit_activities timestamptz_in c now gen (d, sa)")
       (auto simp: handleSubmit_activities_def fst_submitted dest: submit_activities_written)
qed

text \<open>
  The admin submits a new news item with the image field left blank: the stored row has
  the empty text there. Editing the first news item, whose image is \<open>NULL\<close>, and
  submitting the form as it was filled turns the \<open>NULL\<close> into the empty text.
\<close>

theorem forms_write_texts_not_null_witness:
  "fst (handleSubmit_news (Authenticated 1) 300 101 (school_db, start_state))
     = school_db\<lparr>news := [first_news, later_news]\<rparr> \<and>
   nf_image_url (formData start_state) = '''' \<and>
   n_image_url later_news = Some '''' \<and>
   n_image_url first_news = None \<and>
   news (fst (handleSubmit_news (Authenticated 1) 600 102
               (school_db, handleEdit_news first_news start_state)))
     = [first_news\<lparr>updated_at := Some 600, n_image_url := Some ''''\<rparr>]"
proof -
  let ?d = "school_db\<lparr>news := [first_news, later_news]\<rparr>"
  have run: "fst (handleSubmit_news (Authenticated 1) 300 101 (school_db, start_state)) = ?d"
    by code_simp
  have blank: "nf_image_url (formData start_state) = ''''"
    by code_simp
  have new: "later_news \<in> set (news ?d)" "later_news \<notin> set (news school_db)"
    by code_simp+
  have old: "n_image_url first_news = None"
    by code_simp
  have edit: "news (fst (handleSubmit_news (Authenticated 1) 600 102
               (school_db, handleEdit_news first_news start_state)))
     = [first_news\<lparr>updated_at := Some 600, n_image_url := Some ''''\<rparr>]"
    by code_simp
  from forms_write_texts_not_null [where c = "Authenticated 1" and now = 300 and gen = 101
      and d = school_db and s = start_state] run new
  have "n_image_url later_news = Some (nf_image_url (formData start_state))"
    by auto
  with blank have "n_image_url later_news = Some ''''"
    by simp
  with run blank old edit show ?thesis
    by blast
qed

end
